theory Spec2Isabelle
  imports Complex_Main
begin

section \<open>The room relay (CollabHandler.java)\<close>

text \<open>
  The relay keeps two maps: \<open>rooms\<close> (room name to the set of sessions registered in
  it) and \<open>sessionRoom\<close> (session to the room it was bound to). A session handle is a
  natural number. A key set of a concurrent map has no duplicates and no promised
  iteration order; it is kept as a list that \<open>set_add\<close> never lets hold an element
  twice, in insertion order. The relay is modelled one handler call at a time.
\<close>

type_synonym session = nat

record relay =
  rooms :: "string \<rightharpoonup> session list"
  sessionRoom :: "session \<rightharpoonup> string"

definition new_relay :: relay where
  "new_relay = \<lparr> rooms = Map.empty, sessionRoom = Map.empty \<rparr>"

text \<open>
  What the handler learns from Jackson about a payload: \<open>readTree\<close> throws
  (\<open>Unreadable\<close>), the tree has no \<open>room\<close> field (\<open>Absent\<close>), or it has one whose
  \<open>asText()\<close> is the given string (\<open>Present\<close>). The JSON reader is a parameter of the
  model.
\<close>

datatype room_field = Unreadable | Absent | Present string

type_synonym reader = "string \<Rightarrow> room_field"

text \<open>
  The transport under a session: whether \<open>isOpen()\<close> answers true, and whether
  \<open>sendMessage\<close> throws an \<open>IOException\<close>.
\<close>

record transport =
  isOpen :: "session \<Rightarrow> bool"
  sendFails :: "session \<Rightarrow> bool"

datatype relay_error = JsonProcessingException

text \<open>\<open>afterConnectionEstablished\<close> does nothing: a session has no room until its first
  message.\<close>

definition afterConnectionEstablished :: "relay \<Rightarrow> session \<Rightarrow> relay" where
  "afterConnectionEstablished st session = st"

definition set_add :: "session \<Rightarrow> session list \<Rightarrow> session list" where
  "set_add s xs = (if s \<in> set xs then xs else xs @ [s])"

definition set_remove :: "session \<Rightarrow> session list \<Rightarrow> session list" where
  "set_remove s xs = removeAll s xs"

text \<open>
  \<open>broadcast\<close>: the \<open>for\<close> loop over the targets. The result is the list of
  deliveries made, one pair (recipient, payload) for each \<open>sendMessage\<close> that returned.
  An \<open>IOException\<close> is caught and the loop goes on.
\<close>

fun broadcast_loop :: "transport \<Rightarrow> session list \<Rightarrow> string \<Rightarrow> (session \<times> string) list" where
  "broadcast_loop tr [] payload = []"
| "broadcast_loop tr (s # targets) payload =
     (if isOpen tr s
      then (if sendFails tr s then broadcast_loop tr targets payload
            else (s, payload) # broadcast_loop tr targets payload)
      else broadcast_loop tr targets payload)"

definition broadcast :: "transport \<Rightarrow> relay \<Rightarrow> string \<Rightarrow> string \<Rightarrow> (session \<times> string) list" where
  "broadcast tr st room payload =
     broadcast_loop tr (case rooms st room of None \<Rightarrow> [] | Some targets \<Rightarrow> targets) payload"

definition declared_room :: "room_field \<Rightarrow> string" where
  "declared_room rf = (case rf of Present r \<Rightarrow> r | _ \<Rightarrow> ''default'')"

text \<open>
  \<open>handleTextMessage\<close>: read the room, register the session on its first message
  (\<open>computeIfAbsent\<close> on \<open>sessionRoom\<close>, and inside it on \<open>rooms\<close>), then broadcast to
  the room read from this message. A payload that Jackson rejects makes the handler
  throw before it touches the maps.
\<close>

definition register_session :: "relay \<Rightarrow> session \<Rightarrow> string \<Rightarrow> relay" where
  "register_session st session room =
     (case sessionRoom st session of
        Some bound \<Rightarrow> st
      | None \<Rightarrow>
          st\<lparr> rooms := (rooms st)(room \<mapsto>
                  set_add session (case rooms st room of None \<Rightarrow> [] | Some xs \<Rightarrow> xs)),
              sessionRoom := (sessionRoom st)(session \<mapsto> room) \<rparr>)"

definition handleTextMessage ::
  "reader \<Rightarrow> transport \<Rightarrow> relay \<Rightarrow> session \<Rightarrow> string
     \<Rightarrow> relay_error + (relay \<times> (session \<times> string) list)" where
  "handleTextMessage rd tr st session payload =
     (case rd payload of
        Unreadable \<Rightarrow> Inl JsonProcessingException
      | rf \<Rightarrow>
          (let room = declared_room rf;
               st1 = register_session st session room
           in Inr (st1, broadcast tr st1 room payload)))"

text \<open>\<open>afterConnectionClosed\<close>: forget the binding, leave the room, drop an empty room.\<close>

definition afterConnectionClosed :: "relay \<Rightarrow> session \<Rightarrow> relay" where
  "afterConnectionClosed st session =
     (case sessionRoom st session of
        None \<Rightarrow> st
      | Some room \<Rightarrow>
          (let st1 = st\<lparr> sessionRoom := (sessionRoom st)(session := None) \<rparr>
           in case rooms st1 room of
                None \<Rightarrow> st1
              | Some members \<Rightarrow>
                  (let members1 = set_remove session members
                   in if members1 = []
                      then st1\<lparr> rooms := (rooms st1)(room := None) \<rparr>
                      else st1\<lparr> rooms := (rooms st1)(room \<mapsto> members1) \<rparr>)))"

text \<open>The members of a room, and the state after a run of disconnects.\<close>

definition room_members :: "relay \<Rightarrow> string \<Rightarrow> session set" where
  "room_members st room = (case rooms st room of None \<Rightarrow> {} | Some xs \<Rightarrow> set xs)"

fun close_all :: "relay \<Rightarrow> session list \<Rightarrow> relay" where
  "close_all st [] = st"
| "close_all st (s # ss) = close_all (afterConnectionClosed st s) ss"

text \<open>
  The invariant the two handlers keep: a room that has an entry has a member, holds
  none twice, and holds only sessions bound to it; a bound session is a member of its
  room.
\<close>

definition relay_inv :: "relay \<Rightarrow> bool" where
  "relay_inv st \<longleftrightarrow>
     (\<forall>r xs. rooms st r = Some xs \<longrightarrow>
        xs \<noteq> [] \<and> distinct xs \<and> (\<forall>s \<in> set xs. sessionRoom st s = Some r)) \<and>
     (\<forall>s r. sessionRoom st s = Some r \<longrightarrow> s \<in> room_members st r)"

text \<open>
  Sample payloads and a reader that answers for them as Jackson does, a transport on
  which every session is open and every send succeeds, and two relay states built by
  the handler itself, for evaluating the handlers.
\<close>

definition hello_A :: string where
  "hello_A = ''{\"type\":\"hello\",\"room\":\"A\"}''"

definition hello_B :: string where
  "hello_B = ''{\"type\":\"hello\",\"room\":\"B\"}''"

definition hello_noroom :: string where
  "hello_noroom = ''{\"type\":\"hello\"}''"

definition sample_reader :: reader where
  "sample_reader p =
     (if p = hello_A then Present ''A''
      else if p = hello_B then Present ''B''
      else if p = hello_noroom then Absent
      else Unreadable)"

definition all_open :: transport where
  "all_open = \<lparr> isOpen = (\<lambda>s. True), sendFails = (\<lambda>s. False) \<rparr>"

definition after_msg :: "relay \<Rightarrow> session \<Rightarrow> string \<Rightarrow> relay" where
  "after_msg st s p =
     (case handleTextMessage sample_reader all_open st s p of
        Inl e \<Rightarrow> st | Inr (st1, ds) \<Rightarrow> st1)"

definition two_in_A :: relay where
  "two_in_A = after_msg (after_msg new_relay 1 hello_A) 2 hello_A"

definition three_sessions :: relay where
  "three_sessions = after_msg (after_msg (after_msg new_relay 1 hello_A) 2 hello_B) 3 hello_A"

section \<open>The client (app.js): values, layers and the environment\<close>

text \<open>
  A JavaScript value that came out of \<open>JSON.parse\<close> is a \<open>json\<close>; a value that may
  be \<open>undefined\<close> is a \<open>json option\<close>, with \<open>None\<close> for \<open>undefined\<close>. A number is
  kept as a rational: the code passes numbers on and tests them against zero only.
  The properties of an object are an association list, in the object's own order.
\<close>

datatype json =
    JNull
  | JBool bool
  | JNum rat
  | JStr string
  | JArr "json list"
  | JObj "(string \<times> json) list"

type_synonym jsval = "json option"

text \<open>An exception a handler lets escape: a \<open>TypeError\<close> of the language, or an
  \<open>Error\<close> thrown inside Leaflet.\<close>

datatype js_error = TypeError | LeafletError

text \<open>The truth value JavaScript gives a value in a condition.\<close>

fun truthy :: "jsval \<Rightarrow> bool" where
  "truthy None = False"
| "truthy (Some JNull) = False"
| "truthy (Some (JBool b)) = b"
| "truthy (Some (JNum n)) = (n \<noteq> 0)"
| "truthy (Some (JStr s)) = (s \<noteq> [])"
| "truthy (Some (JArr xs)) = True"
| "truthy (Some (JObj kvs)) = True"

text \<open>
  \<open>v.k\<close> for a value \<open>v\<close> that is neither \<open>null\<close> nor \<open>undefined\<close>, and for one of
  the property names the code reads (none of them is a property of a string, a number,
  a boolean or an array). \<open>a && a.k\<close> is \<open>guarded_prop\<close>.
\<close>

fun jprop :: "json \<Rightarrow> string \<Rightarrow> jsval" where
  "jprop (JObj kvs) k = map_of kvs k"
| "jprop v k = None"

definition guarded_prop :: "jsval \<Rightarrow> string \<Rightarrow> jsval" where
  "guarded_prop a k =
     (case a of None \<Rightarrow> None | Some v \<Rightarrow> if truthy (Some v) then jprop v k else Some v)"

text \<open>\<open>a || b\<close> and \<open>a ?? b\<close>.\<close>

definition js_or :: "jsval \<Rightarrow> jsval \<Rightarrow> jsval" where
  "js_or a b = (if truthy a then a else b)"

definition nullish :: "jsval \<Rightarrow> jsval \<Rightarrow> jsval" where
  "nullish a b = (if a = None \<or> a = Some JNull then b else a)"

text \<open>
  \<open>a === b\<close> between two values of which at least one comes from the message being
  handled: primitives are compared by value, and an array or an object of a freshly
  parsed message is identical to no value met before.
\<close>

fun strict_eq :: "jsval \<Rightarrow> jsval \<Rightarrow> bool" where
  "strict_eq None None = True"
| "strict_eq (Some JNull) (Some JNull) = True"
| "strict_eq (Some (JBool a)) (Some (JBool b)) = (a = b)"
| "strict_eq (Some (JNum a)) (Some (JNum b)) = (a = b)"
| "strict_eq (Some (JStr a)) (Some (JStr b)) = (a = b)"
| "strict_eq a b = False"

text \<open>\<open>obj.k = v\<close> on an object: the property keeps its place, a new one goes last.\<close>

fun assign :: "(string \<times> json) list \<Rightarrow> string \<Rightarrow> json \<Rightarrow> (string \<times> json) list" where
  "assign [] k v = [(k, v)]"
| "assign ((k', v') # kvs) k v = (if k' = k then (k, v) # kvs else (k', v') # assign kvs k v)"

text \<open>
  Assigning a value that may be \<open>undefined\<close>: \<open>JSON.stringify\<close> drops a property whose
  value is \<open>undefined\<close>, so in what is serialised the property is absent.
\<close>

definition assign_val :: "(string \<times> json) list \<Rightarrow> string \<Rightarrow> jsval \<Rightarrow> (string \<times> json) list" where
  "assign_val kvs k v =
     (case v of None \<Rightarrow> filter (\<lambda>kv. fst kv \<noteq> k) kvs | Some w \<Rightarrow> assign kvs k w)"

subsection \<open>Layers\<close>

text \<open>
  A Leaflet layer, as far as the code reads and writes it: its class (\<open>L.Polygon\<close>
  extends \<open>L.Polyline\<close>; a multi-point or a geometry collection becomes a feature
  group), its coordinates, the GeoJSON feature it was built from (\<open>layer.feature\<close>,
  an object, or \<open>undefined\<close> for a layer that was drawn), the options the code reads
  and sets, and the content of its tooltip and popup (\<open>None\<close> while none is bound).
\<close>

datatype layer_kind = Marker | Polyline | Polygon | FeatureGroup

record meta =
  createdBy :: jsval
  createdAt :: jsval
  updatedBy :: jsval
  updatedAt :: jsval

record layer =
  kind :: layer_kind
  latlngs :: json
  feature :: jsval
  opt_id :: jsval
  opt_meta :: "meta option"
  opt_am :: jsval
  opt_color :: jsval
  opt_opacity :: jsval
  opt_weight :: jsval
  opt_dashArray :: jsval
  opt_fillColor :: jsval
  opt_fillOpacity :: jsval
  opt_fill :: jsval
  tooltip :: jsval
  popup :: jsval

definition is_Polyline :: "layer \<Rightarrow> bool" where
  "is_Polyline l = (kind l = Polyline \<or> kind l = Polygon)"

definition is_Polygon :: "layer \<Rightarrow> bool" where
  "is_Polygon l = (kind l = Polygon)"

definition is_Marker :: "layer \<Rightarrow> bool" where
  "is_Marker l = (kind l = Marker)"

text \<open>
  A layer as its constructor leaves it, before the code sets anything. The options of a
  polyline or polygon start at the defaults of Leaflet's \<open>Path\<close> class (\<open>color\<close>
  \<open>'#3388ff'\<close>, \<open>opacity\<close> 1, \<open>weight\<close> 3, \<open>dashArray\<close> and \<open>fillColor\<close> \<open>null\<close>,
  \<open>fillOpacity\<close> 0.2, \<open>fill\<close> set for a polygon only); a marker and a feature group
  have none of these options.
\<close>

definition new_layer :: "layer_kind \<Rightarrow> json \<Rightarrow> jsval \<Rightarrow> layer" where
  "new_layer k ll f =
     (if k = Polyline \<or> k = Polygon
      then \<lparr> kind = k, latlngs = ll, feature = f, opt_id = None, opt_meta = None, opt_am = None,
             opt_color = Some (JStr ''#3388ff''), opt_opacity = Some (JNum 1),
             opt_weight = Some (JNum 3), opt_dashArray = Some JNull,
             opt_fillColor = Some JNull, opt_fillOpacity = Some (JNum (1 / 5)),
             opt_fill = Some (JBool (k = Polygon)),
             tooltip = None, popup = None \<rparr>
      else \<lparr> kind = k, latlngs = ll, feature = f, opt_id = None, opt_meta = None, opt_am = None,
             opt_color = None, opt_opacity = None, opt_weight = None, opt_dashArray = None,
             opt_fillColor = None, opt_fillOpacity = None, opt_fill = None,
             tooltip = None, popup = None \<rparr>)"

subsection \<open>What the code takes from outside\<close>

text \<open>
  Leaflet, the language runtime and the clock are not part of the repository; the model
  takes them as parameters.
  \<^item> \<open>geoJSON g\<close>: what \<open>L.geoJSON(g, options)\<close> does with its callbacks. It walks
    \<open>g\<close> and, for each feature it can turn into a layer, in order, builds the layer
    (through \<open>pointToLayer\<close> for a point) and calls \<open>onEachFeature\<close>; the list holds,
    for each such call, the feature, the class of the layer and its coordinates. The
    flag says that the walk, when no callback throws, ends with a throw of Leaflet's
    own (a geometry it rejects) after the calls listed.
  \<^item> \<open>geometryOf l\<close>: the geometry (type and coordinates) that \<open>l.toGeoJSON()\<close> makes
    of the layer's class and coordinates, \<open>None\<close> when it throws.
  \<^item> \<open>tooltipOpens k ll\<close>: whether Leaflet finds the anchor of a tooltip on a layer of
    class \<open>k\<close> with coordinates \<open>ll\<close> (it throws for a line without points, say).
  \<^item> \<open>markerAt ll\<close>: whether placing a marker at \<open>ll\<close> (\<open>L.marker(ll).addTo(map)\<close>,
    \<open>setLatLng(ll)\<close>) returns.
  \<^item> \<open>coordsToLatLngs c d\<close>: \<open>L.GeoJSON.coordsToLatLngs(c, d)\<close>, \<open>None\<close> when it throws.
  \<^item> \<open>toStr v\<close>: the string a template literal makes of \<open>v\<close>.
  \<^item> \<open>uuidv4 n\<close>: the result of the \<open>n\<close>-th call of \<open>uuidv4()\<close>.
  \<^item> \<open>now\<close>: \<open>new Date().toISOString()\<close> during the handler.
  The other Leaflet calls the code makes (\<open>addTo\<close>, \<open>setStyle\<close>, \<open>bindPopup\<close>,
  \<open>unbindTooltip\<close>, \<open>unbindPopup\<close>, \<open>removeLayer\<close>, \<open>clearLayers\<close>) are taken to
  return, and to fire none of the events the code listens to (the \<open>pm:\<close> events are
  fired by the drawing tools on user gestures). The DOM is not modelled.
\<close>

record env =
  geoJSON :: "json \<Rightarrow> (json \<times> layer_kind \<times> json) list \<times> bool"
  geometryOf :: "layer \<Rightarrow> jsval"
  tooltipOpens :: "layer_kind \<Rightarrow> json \<Rightarrow> bool"
  markerAt :: "json \<Rightarrow> bool"
  coordsToLatLngs :: "jsval \<Rightarrow> nat \<Rightarrow> jsval"
  toStr :: "jsval \<Rightarrow> string"
  uuidv4 :: "nat \<Rightarrow> string"
  now :: string

subsection \<open>The state of the client\<close>

text \<open>
  A snapshot on the history stacks is the string \<open>JSON.stringify\<close> made of a value;
  it is kept as the value it denotes, which \<open>JSON.parse\<close> gives back.
\<close>

datatype jstring = Stringified json

fun JSON_parse :: "jstring \<Rightarrow> json" where
  "JSON_parse (Stringified v) = v"

record participant =
  p_name :: jsval
  p_color :: jsval
  p_cursor :: jsval
  p_lastView :: "(json \<times> json) option"
  p_self :: bool

text \<open>
  \<open>participants\<close> is a \<open>Map\<close>: entries in insertion order, keys compared as \<open>Map\<close>
  compares them (\<open>strict_eq\<close> on the values that occur). \<open>drawn\<close> is the feature group
  of the user's layers, in insertion order. \<open>outbox\<close> lists the messages handed to
  \<open>ws.send\<close>. \<open>uuid_calls\<close> counts the calls of \<open>uuidv4()\<close>.
\<close>

record client =
  my_id :: string
  my_name :: string
  my_color :: string
  local_room :: string
  ws_connected :: bool
  participants :: "(json \<times> participant) list"
  drawn :: "layer list"
  undoStack :: "jstring list"
  redoStack :: "jstring list"
  isRestoring :: bool
  isRemoteApplying :: bool
  outbox :: "json list"
  uuid_calls :: nat

fun participants_get :: "(json \<times> participant) list \<Rightarrow> json \<Rightarrow> participant option" where
  "participants_get [] k = None"
| "participants_get ((k', p) # ps) k =
     (if strict_eq (Some k') (Some k) then Some p else participants_get ps k)"

fun participants_set ::
  "(json \<times> participant) list \<Rightarrow> json \<Rightarrow> participant \<Rightarrow> (json \<times> participant) list" where
  "participants_set [] k p = [(k, p)]"
| "participants_set ((k', p') # ps) k p =
     (if strict_eq (Some k') (Some k) then (k', p) # ps else (k', p') # participants_set ps k p)"

section \<open>The client (app.js): the feature reconciler\<close>

text \<open>
  A handler takes the state and returns the state it leaves and, when it throws, the
  exception that escapes it.
\<close>

type_synonym result = "client \<times> js_error option"

text \<open>
  \<open>ensureLayerId\<close>: a layer without an \<open>_id\<close> gets \<open>'f_'\<close> and a fresh uuid. The
  number is the count of \<open>uuidv4()\<close> calls so far, before and after.
\<close>

definition ensureLayerId :: "env \<Rightarrow> nat \<Rightarrow> layer \<Rightarrow> nat \<times> layer" where
  "ensureLayerId e n l =
     (if \<not> truthy (opt_id l)
      then (Suc n, l\<lparr> opt_id := Some (JStr (''f_'' @ uuidv4 e n)) \<rparr>)
      else (n, l))"

text \<open>
  \<open>setMarkerIcon(marker, value)\<close>: \<open>value.split(',')\<close> gives the icon name and the
  colour, stored in \<open>options._am\<close>. The icon itself is rendering.
\<close>

definition split_comma :: "string \<Rightarrow> string \<times> jsval" where
  "split_comma v =
     (takeWhile (\<lambda>c. c \<noteq> CHR '','') v,
      case dropWhile (\<lambda>c. c \<noteq> CHR '','') v of
        [] \<Rightarrow> None
      | c # rest \<Rightarrow> Some (JStr (takeWhile (\<lambda>c. c \<noteq> CHR '','') rest)))"

definition setMarkerIcon :: "layer \<Rightarrow> string \<Rightarrow> layer" where
  "setMarkerIcon m v =
     (case split_comma v of
        (iconName, color) \<Rightarrow>
          m\<lparr> opt_am := Some (JObj (assign_val [(''iconName'', JStr iconName)] ''color'' color)) \<rparr>)"

text \<open>
  The \<open>pointToLayer\<close> callback of \<open>addFeatureFromRemote\<close> and \<open>restoreFromGeoJSON\<close>:
  a marker, with its icon when the feature's properties carry \<open>_am\<close>.
\<close>

definition pointToLayer :: "env \<Rightarrow> json \<Rightarrow> json \<Rightarrow> layer" where
  "pointToLayer e feat latlng =
     (let m = new_layer Marker latlng None;
          am = guarded_prop (jprop feat ''properties'') ''_am''
      in case am of
           None \<Rightarrow> m
         | Some a \<Rightarrow>
             if truthy (Some a)
             then setMarkerIcon m
                    (toStr e (jprop a ''iconName'') @ '','' @
                     toStr e (js_or (jprop a ''color'') (Some (JStr ''#d33''))))
             else m)"

text \<open>
  The layer Leaflet hands to \<open>onEachFeature\<close> for one entry of its walk. Leaflet has
  set \<open>layer.feature\<close> to the GeoJSON object itself when that is a feature, and to a
  new feature around it when it is a bare geometry (\<open>L.GeoJSON.asFeature\<close>).
\<close>

definition asFeature :: "json \<Rightarrow> json" where
  "asFeature g =
     (if jprop g ''type'' = Some (JStr ''Feature'') \<or>
         jprop g ''type'' = Some (JStr ''FeatureCollection'')
      then g
      else JObj [(''type'', JStr ''Feature''), (''properties'', JObj []), (''geometry'', g)])"

definition built_layer :: "env \<Rightarrow> json \<times> layer_kind \<times> json \<Rightarrow> layer" where
  "built_layer e leaf =
     (case leaf of (feat, k, ll) \<Rightarrow>
        (if k = Marker then pointToLayer e feat ll else new_layer k ll None)
          \<lparr> feature := Some (asFeature feat) \<rparr>)"

text \<open>\<open>feature.properties || {}\<close>, read property by property.\<close>

definition props_of :: "json \<Rightarrow> json" where
  "props_of feat = (case js_or (jprop feat ''properties'') (Some (JObj [])) of
                      Some p \<Rightarrow> p | None \<Rightarrow> JObj [])"

text \<open>
  The style the remote paths give a polyline or polygon (\<open>layer.setStyle(opts)\<close>), and
  the metadata they store.
\<close>

definition remote_style :: "json \<Rightarrow> layer \<Rightarrow> layer" where
  "remote_style p l =
     (if is_Polyline l
      then (let l1 = l\<lparr> opt_color := js_or (jprop p ''stroke'') (Some (JStr ''#ff4757'')),
                          opt_opacity := nullish (jprop p ''opacity'') (Some (JNum (7 / 10))),
                          opt_weight := Some (JNum 3),
                          opt_dashArray := js_or (jprop p ''dashArray'') (Some JNull) \<rparr>
            in if is_Polygon l
               then l1\<lparr> opt_fillColor := js_or (jprop p ''fill'') (Some (JStr ''#2ed573'')),
                        opt_fillOpacity := nullish (jprop p ''opacity'') (Some (JNum (7 / 10))),
                        opt_fill := Some (JBool True) \<rparr>
               else l1)
      else l)"

definition remote_meta :: "json \<Rightarrow> meta" where
  "remote_meta p =
     \<lparr> createdBy = jprop p ''_createdBy'', createdAt = jprop p ''_createdAt'',
       updatedBy = jprop p ''_updatedBy'', updatedAt = jprop p ''_updatedAt'' \<rparr>"

text \<open>
  \<open>layer.bindTooltip(content, {permanent:true, ...}).openTooltip()\<close> for a truthy
  content, on a layer that is on the map. The tooltip is bound, then opened: Leaflet
  takes its anchor from the layer's coordinates, and puts the content into the
  tooltip's element, a string as HTML and any other value by \<open>appendChild\<close>, which
  throws a \<open>TypeError\<close> for a value that is no DOM node; no value that came out of
  \<open>JSON.parse\<close> is one. The layer keeps the tooltip it was bound when the opening
  throws.
\<close>

fun is_string :: "jsval \<Rightarrow> bool" where
  "is_string (Some (JStr s)) = True"
| "is_string v = False"

fun is_number :: "jsval \<Rightarrow> bool" where
  "is_number (Some (JNum n)) = True"
| "is_number v = False"

definition bindTooltip :: "env \<Rightarrow> layer \<Rightarrow> jsval \<Rightarrow> layer \<times> js_error option" where
  "bindTooltip e l content =
     (l\<lparr> tooltip := content \<rparr>,
      if \<not> tooltipOpens e (kind l) (latlngs l) then Some LeafletError
      else if \<not> is_string content then Some TypeError
      else None)"

text \<open>
  The \<open>onEachFeature\<close> callback of \<open>addFeatureFromRemote\<close>: \<open>attachCommon\<close> puts the
  layer into \<open>drawn\<close>; the layer then gets its identifier (the feature's \<open>_id\<close> when it
  has one, else the fresh one), its metadata, its style and its texts. The layer in
  \<open>drawn\<close> is the object the callback goes on to change, so \<open>drawn\<close> holds the layer as
  the callback leaves it, also when the callback throws; the popup is not reached
  then. The result is the count of \<open>uuidv4()\<close> calls, that layer, and the exception.
\<close>

definition remote_layer ::
  "env \<Rightarrow> nat \<Rightarrow> json \<times> layer_kind \<times> json \<Rightarrow> nat \<times> layer \<times> js_error option" where
  "remote_layer e n leaf =
     (let layer0 = built_layer e leaf;
          (n1, layer1) = ensureLayerId e n layer0;
          (n2, layer2) = ensureLayerId e n1 layer1;
          p = props_of (fst leaf);
          layer3 = layer2\<lparr> opt_id := js_or (jprop p ''_id'') (opt_id layer2) \<rparr>;
          layer4 = layer3\<lparr> opt_meta := Some (remote_meta p) \<rparr>;
          layer5 = remote_style p layer4;
          (layer6, err) = (if truthy (jprop p ''label'') then bindTooltip e layer5 (jprop p ''label'')
                           else (layer5, None))
      in if err \<noteq> None then (n2, layer6, err)
         else (n2,
               if truthy (jprop p ''popup'') then layer6\<lparr> popup := jprop p ''popup'' \<rparr>
               else layer6,
               None))"

text \<open>
  The calls of an \<open>onEachFeature\<close> callback during one \<open>L.geoJSON\<close>, one for each
  layer Leaflet builds, in order, up to the first call that throws: the count of
  \<open>uuidv4()\<close> calls at the end, the layers that entered \<open>drawn\<close>, and the exception of
  the callback that threw.
\<close>

fun onEachFeature_calls ::
  "(nat \<Rightarrow> json \<times> layer_kind \<times> json \<Rightarrow> nat \<times> layer \<times> js_error option) \<Rightarrow>
   nat \<Rightarrow> (json \<times> layer_kind \<times> json) list \<Rightarrow> nat \<times> layer list \<times> js_error option" where
  "onEachFeature_calls cb n [] = (n, [], None)"
| "onEachFeature_calls cb n (leaf # leaves) =
     (case cb n leaf of
        (n1, l, Some err) \<Rightarrow> (n1, [l], Some err)
      | (n1, l, None) \<Rightarrow>
          (case onEachFeature_calls cb n1 leaves of
             (n2, ls, err) \<Rightarrow> (n2, l # ls, err)))"

text \<open>
  \<open>L.geoJSON(g, {pointToLayer, onEachFeature}).addTo(map)\<close> with the callback \<open>cb\<close>:
  the layers attached before a throw stay in \<open>drawn\<close>; the exception that escapes is
  that of the callback, or Leaflet's own when no callback threw.
\<close>

definition geoJSON_with ::
  "env \<Rightarrow> (nat \<Rightarrow> json \<times> layer_kind \<times> json \<Rightarrow> nat \<times> layer \<times> js_error option) \<Rightarrow>
   client \<Rightarrow> json \<Rightarrow> result" where
  "geoJSON_with e cb st g =
     (case geoJSON e g of
        (leaves, threw) \<Rightarrow>
          (case onEachFeature_calls cb (uuid_calls st) leaves of
             (n, ls, err) \<Rightarrow>
               (st\<lparr> uuid_calls := n, drawn := drawn st @ ls \<rparr>,
                case err of
                  Some x \<Rightarrow> Some x
                | None \<Rightarrow> if threw then Some LeafletError else None)))"

text \<open>\<open>addFeatureFromRemote(feat)\<close>.\<close>

definition addFeatureFromRemote :: "env \<Rightarrow> client \<Rightarrow> json \<Rightarrow> result" where
  "addFeatureFromRemote e st feat = geoJSON_with e (remote_layer e) st feat"

text \<open>
  \<open>findLayerById(id)\<close>: \<open>drawn.eachLayer\<close> overwrites \<open>found\<close> at every match, so the
  last matching layer wins. The result is the position of that layer in \<open>drawn\<close>.
\<close>

fun eachLayer_find :: "layer list \<Rightarrow> json \<Rightarrow> nat \<Rightarrow> nat option \<Rightarrow> nat option" where
  "eachLayer_find [] ident i found = found"
| "eachLayer_find (l # ls) ident i found =
     eachLayer_find ls ident (Suc i)
       (if strict_eq (opt_id l) (Some ident) then Some i else found)"

definition findLayerById :: "client \<Rightarrow> json \<Rightarrow> nat option" where
  "findLayerById st ident = eachLayer_find (drawn st) ident 0 None"

text \<open>Removing the layer at a position (\<open>drawn.removeLayer(l)\<close>).\<close>

definition removeLayer :: "layer list \<Rightarrow> nat \<Rightarrow> layer list" where
  "removeLayer ls i = take i ls @ drop (Suc i) ls"

definition removeFeatureById :: "client \<Rightarrow> json \<Rightarrow> client" where
  "removeFeatureById st ident =
     (case findLayerById st ident of
        None \<Rightarrow> st
      | Some i \<Rightarrow> st\<lparr> drawn := removeLayer (drawn st) i \<rparr>)"

text \<open>
  \<open>editFeatureFromRemote(feat)\<close>. Without an \<open>_id\<close>, or with one that no layer of
  \<open>drawn\<close> has, the feature is added. Else the layer found gets the new coordinates
  (a polyline or polygon only, the one class with \<open>setLatLngs\<close>), style, texts and
  metadata, in this order: an exception of \<open>coordsToLatLngs\<close> leaves the layer as it
  was, one of the tooltip leaves it with the new coordinates, style and tooltip, and
  with its popup and metadata as they were.
\<close>

definition edit_texts :: "env \<Rightarrow> json \<Rightarrow> layer \<Rightarrow> layer \<times> js_error option" where
  "edit_texts e p l =
     (let (l1, err) = (if truthy (jprop p ''label'') then bindTooltip e l (jprop p ''label'')
                       else if tooltip l \<noteq> None then (l\<lparr> tooltip := None \<rparr>, None)
                       else (l, None))
      in if err \<noteq> None then (l1, err)
         else (if truthy (jprop p ''popup'') then l1\<lparr> popup := jprop p ''popup'' \<rparr>
               else if popup l1 \<noteq> None then l1\<lparr> popup := None \<rparr> else l1,
               None))"

definition edit_geometry :: "env \<Rightarrow> jsval \<Rightarrow> layer \<Rightarrow> layer option" where
  "edit_geometry e g l =
     (case g of
        None \<Rightarrow> Some l
      | Some gv \<Rightarrow>
          if is_Polyline l \<and> truthy g
          then (if strict_eq (jprop gv ''type'') (Some (JStr ''LineString''))
                then (case coordsToLatLngs e (jprop gv ''coordinates'') 0 of
                        None \<Rightarrow> None | Some ll \<Rightarrow> Some (l\<lparr> latlngs := ll \<rparr>))
                else if strict_eq (jprop gv ''type'') (Some (JStr ''Polygon''))
                then (case coordsToLatLngs e (jprop gv ''coordinates'') 1 of
                        None \<Rightarrow> None | Some ll \<Rightarrow> Some (l\<lparr> latlngs := ll \<rparr>))
                else Some l)
          else Some l)"

definition editFeatureFromRemote :: "env \<Rightarrow> client \<Rightarrow> json \<Rightarrow> result" where
  "editFeatureFromRemote e st feat =
     (case guarded_prop (jprop feat ''properties'') ''_id'' of
        None \<Rightarrow> addFeatureFromRemote e st feat
      | Some ident \<Rightarrow>
          if \<not> truthy (Some ident) then addFeatureFromRemote e st feat
          else (case findLayerById st ident of
                  None \<Rightarrow> addFeatureFromRemote e st feat
                | Some i \<Rightarrow>
                    (case edit_geometry e (jprop feat ''geometry'') (drawn st ! i) of
                       None \<Rightarrow> (st, Some LeafletError)
                     | Some l1 \<Rightarrow>
                         (let p = props_of feat;
                              l2 = remote_style p l1
                          in case edit_texts e p l2 of
                               (l3, Some err) \<Rightarrow> (st\<lparr> drawn := (drawn st)[i := l3] \<rparr>, Some err)
                             | (l3, None) \<Rightarrow>
                                 (st\<lparr> drawn := (drawn st)[i := l3\<lparr> opt_meta := Some (remote_meta p) \<rparr>] \<rparr>,
                                  None)))))"

section \<open>The client (app.js): participants and the message handler\<close>

text \<open>
  \<open>renderPresence()\<close>: the entry of the local user is set anew, then the avatars are
  drawn; \<open>p.name.slice(0,2).toUpperCase()\<close> throws for a participant whose name is not
  a string.
\<close>

definition renderPresence :: "client \<Rightarrow> result" where
  "renderPresence st =
     (let ps = participants_set (participants st) (JStr (my_id st))
                 \<lparr> p_name = Some (JStr (my_name st)), p_color = Some (JStr (my_color st)),
                   p_cursor = None, p_lastView = None, p_self = True \<rparr>;
          st1 = st\<lparr> participants := ps \<rparr>
      in (st1, if list_all (\<lambda>kp. is_string (p_name (snd kp))) ps then None else Some TypeError))"

text \<open>
  \<open>handle(msg)\<close>. Destructuring \<open>null\<close> throws. A message without a user, or whose
  user has no id, is dropped at once. Else the sender is recorded, and the message is
  dispatched on its type; the three feature operations run with \<open>isRemoteApplying\<close>
  set, and the \<open>finally\<close> clears it whether the operation returned or threw. A
  participant's \<open>p_cursor\<close> is the position of its cursor marker, \<open>None\<close> while it
  has none: the first cursor message creates the marker, a later one moves it.
\<close>

definition record_sender :: "client \<Rightarrow> json \<Rightarrow> json \<Rightarrow> participant" where
  "record_sender st u uid =
     (let p = (case participants_get (participants st) uid of
                 Some q \<Rightarrow> q
               | None \<Rightarrow> \<lparr> p_name = jprop u ''name'', p_color = jprop u ''color'',
                            p_cursor = None, p_lastView = None, p_self = False \<rparr>)
      in p\<lparr> p_name := jprop u ''name'', p_color := jprop u ''color'' \<rparr>)"

definition handle_dispatch :: "env \<Rightarrow> client \<Rightarrow> json \<Rightarrow> json \<Rightarrow> participant \<Rightarrow> result" where
  "handle_dispatch e st msg uid p =
     (let ty = jprop msg ''type'';
          st1 = st\<lparr> participants := participants_set (participants st) uid p \<rparr>
      in if strict_eq ty (Some (JStr ''presence'')) \<or> strict_eq ty (Some (JStr ''hello''))
         then renderPresence st1
         else if strict_eq ty (Some (JStr ''cursor'')) \<and> truthy (jprop msg ''latlng'')
         then (case jprop msg ''latlng'' of
                 None \<Rightarrow> (st1, None)
               | Some ll \<Rightarrow>
                   if p_cursor p = None
                   then (if markerAt e ll
                         then (st\<lparr> participants :=
                                 participants_set (participants st) uid (p\<lparr> p_cursor := Some ll \<rparr>) \<rparr>,
                               None)
                         else (st1, Some LeafletError))
                   else (if markerAt e ll
                         then (st\<lparr> participants :=
                                 participants_set (participants st) uid (p\<lparr> p_cursor := Some ll \<rparr>) \<rparr>,
                               None)
                         else (st1, Some LeafletError)))
         else if strict_eq ty (Some (JStr ''view'')) \<and> truthy (jprop msg ''center'')
                 \<and> is_number (jprop msg ''zoom'')
         then (case (jprop msg ''center'', jprop msg ''zoom'') of
                 (Some c, Some z) \<Rightarrow>
                   (st\<lparr> participants :=
                        participants_set (participants st) uid (p\<lparr> p_lastView := Some (c, z) \<rparr>) \<rparr>,
                    None)
               | _ \<Rightarrow> (st1, None))
         else if strict_eq ty (Some (JStr ''feature:add'')) \<and> truthy (jprop msg ''feature'')
         then (case jprop msg ''feature'' of
                 None \<Rightarrow> (st1, None)
               | Some feat \<Rightarrow>
                   (case addFeatureFromRemote e (st1\<lparr> isRemoteApplying := True \<rparr>) feat of
                      (st2, r) \<Rightarrow> (st2\<lparr> isRemoteApplying := False \<rparr>, r)))
         else if strict_eq ty (Some (JStr ''feature:edit'')) \<and> truthy (jprop msg ''feature'')
         then (case jprop msg ''feature'' of
                 None \<Rightarrow> (st1, None)
               | Some feat \<Rightarrow>
                   (case editFeatureFromRemote e (st1\<lparr> isRemoteApplying := True \<rparr>) feat of
                      (st2, r) \<Rightarrow> (st2\<lparr> isRemoteApplying := False \<rparr>, r)))
         else if strict_eq ty (Some (JStr ''feature:remove'')) \<and> truthy (jprop msg ''id'')
         then (case jprop msg ''id'' of
                 None \<Rightarrow> (st1, None)
               | Some ident \<Rightarrow>
                   ((removeFeatureById (st1\<lparr> isRemoteApplying := True \<rparr>) ident)
                      \<lparr> isRemoteApplying := False \<rparr>, None))
         else (st1, None))"

definition handle :: "env \<Rightarrow> client \<Rightarrow> json \<Rightarrow> result" where
  "handle e st msg =
     (if msg = JNull then (st, Some TypeError)
      else (case jprop msg ''user'' of
              None \<Rightarrow> (st, None)
            | Some u \<Rightarrow>
                if \<not> truthy (Some u) then (st, None)
                else (case jprop u ''id'' of
                        None \<Rightarrow> (st, None)
                      | Some uid \<Rightarrow>
                          if \<not> truthy (Some uid) then (st, None)
                          else handle_dispatch e st msg uid (record_sender st u uid))))"

text \<open>
  \<open>ws.onmessage\<close>. The argument is what \<open>JSON.parse(evt.data)\<close> gave, \<open>None\<close> when it
  threw. Reading \<open>msg.room\<close> of \<open>null\<close> throws. A message is dropped when its room is
  truthy and is not the local room, or when it has a user whose id is the local id.
\<close>

definition onmessage :: "env \<Rightarrow> client \<Rightarrow> json option \<Rightarrow> result" where
  "onmessage e st parsed =
     (case parsed of
        None \<Rightarrow> (st, None)
      | Some msg \<Rightarrow>
          if msg = JNull then (st, Some TypeError)
          else if truthy (jprop msg ''room'')
                  \<and> \<not> strict_eq (jprop msg ''room'') (Some (JStr (local_room st)))
          then (st, None)
          else if truthy (jprop msg ''user'')
                  \<and> strict_eq (guarded_prop (jprop msg ''user'') ''id'') (Some (JStr (my_id st)))
          then (st, None)
          else handle e st msg)"

text \<open>
  A message with a sender: a truthy \<open>user\<close> with a truthy \<open>id\<close>, the messages
  \<open>handle\<close> does not drop at once. A message that makes \<open>handle\<close> apply a remote
  feature operation: it has a sender, and its type is one of the three feature types
  with the payload that type needs.
\<close>

definition has_sender :: "json \<Rightarrow> bool" where
  "has_sender msg \<longleftrightarrow>
     truthy (jprop msg ''user'') \<and> truthy (guarded_prop (jprop msg ''user'') ''id'')"

definition remote_operation :: "json \<Rightarrow> bool" where
  "remote_operation msg \<longleftrightarrow>
     has_sender msg \<and>
     ((jprop msg ''type'' = Some (JStr ''feature:add'') \<and> truthy (jprop msg ''feature'')) \<or>
      (jprop msg ''type'' = Some (JStr ''feature:edit'') \<and> truthy (jprop msg ''feature'')) \<or>
      (jprop msg ''type'' = Some (JStr ''feature:remove'') \<and> truthy (jprop msg ''id'')))"

section \<open>The client (app.js): serialising layers and sending\<close>

text \<open>
  \<open>const gj = layer.toGeoJSON(); const props = gj.properties || (gj.properties = {})\<close>
  followed by assignments to \<open>props\<close>: \<open>write_props l geo f\<close> gives the layer and
  \<open>gj\<close> after the assignments \<open>f\<close>, where \<open>geo\<close> is the layer's present geometry.
  For a layer built from GeoJSON, Leaflet's \<open>toGeoJSON\<close> answers with a shallow copy
  of \<open>layer.feature\<close> that has the present geometry, so \<open>gj.properties\<close> is the very
  object \<open>layer.feature.properties\<close>, and what is assigned to \<open>props\<close> is assigned to
  the layer's own feature and stays there. Properties that are falsy are replaced by a
  fresh object on the copy; properties that are truthy but no object with properties
  of its own to serialise (a string, a number, an array) take no assignment that
  \<open>JSON.stringify\<close> would show. For a layer that has no \<open>feature\<close>, \<open>toGeoJSON\<close>
  answers with a new feature whose properties are a new empty object.
\<close>

definition write_props ::
  "layer \<Rightarrow> json \<Rightarrow> ((string \<times> json) list \<Rightarrow> (string \<times> json) list) \<Rightarrow> layer \<times> json" where
  "write_props l geo f =
     (case feature l of
        Some (JObj fkvs) \<Rightarrow>
          (case map_of fkvs ''properties'' of
             Some (JObj kvs) \<Rightarrow>
               (l\<lparr> feature := Some (JObj (assign fkvs ''properties'' (JObj (f kvs)))) \<rparr>,
                JObj (assign (assign fkvs ''properties'' (JObj (f kvs))) ''geometry'' geo))
           | v \<Rightarrow>
               (l, if truthy v then JObj (assign fkvs ''geometry'' geo)
                   else JObj (assign (assign fkvs ''geometry'' geo) ''properties'' (JObj (f [])))))
      | _ \<Rightarrow>
          (l, JObj [(''type'', JStr ''Feature''), (''properties'', JObj (f [])),
                    (''geometry'', geo)]))"

text \<open>
  The style and texts that \<open>collectGeoJSON\<close> and \<open>toSingleGeoJSON\<close> both write into
  the properties of a layer's GeoJSON.
\<close>

definition persist_style :: "layer \<Rightarrow> (string \<times> json) list \<Rightarrow> (string \<times> json) list" where
  "persist_style l props =
     (if is_Polyline l
      then (let p1 = assign_val props ''stroke'' (js_or (opt_color l) (Some (JStr ''#ff4757'')));
                p2 = assign_val p1 ''opacity'' (nullish (opt_opacity l) (Some (JNum (7 / 10))));
                p3 = assign_val p2 ''dashArray'' (js_or (opt_dashArray l) (Some JNull))
            in if is_Polygon l
               then assign_val p3 ''fill'' (js_or (opt_fillColor l) (Some (JStr ''#2ed573'')))
               else p3)
      else props)"

definition persist_texts :: "layer \<Rightarrow> (string \<times> json) list \<Rightarrow> (string \<times> json) list" where
  "persist_texts l props =
     (let p1 = (if tooltip l \<noteq> None then assign_val props ''label'' (tooltip l) else props);
          p2 = (if popup l \<noteq> None then assign_val p1 ''popup'' (popup l) else p1)
      in if is_Marker l \<and> truthy (opt_am l) then assign_val p2 ''_am'' (opt_am l) else p2)"




text \<open>
  \<open>toSingleGeoJSON(layer)\<close>. Each of its two \<open>layer.options._id || ('f_'+uuidv4())\<close>
  calls \<open>uuidv4\<close> when the layer has no identifier; \<open>single_props\<close> is the run of
  its assignments to \<open>props\<close>, given the two identifiers. The result holds the layer
  with what was written to its feature.
\<close>

definition id_or_fresh :: "env \<Rightarrow> nat \<Rightarrow> layer \<Rightarrow> nat \<times> jsval" where
  "id_or_fresh e n l =
     (if truthy (opt_id l) then (n, opt_id l)
      else (Suc n, Some (JStr (''f_'' @ uuidv4 e n))))"

definition meta_or_empty :: "layer \<Rightarrow> meta" where
  "meta_or_empty l =
     (case opt_meta l of
        Some m \<Rightarrow> m
      | None \<Rightarrow> \<lparr> createdBy = None, createdAt = None, updatedBy = None, updatedAt = None \<rparr>)"

definition single_props ::
  "env \<Rightarrow> client \<Rightarrow> layer \<Rightarrow> jsval \<Rightarrow> jsval \<Rightarrow> (string \<times> json) list \<Rightarrow> (string \<times> json) list" where
  "single_props e st l id1 id2 props =
     (let p1 = assign_val props ''_id'' id1;
          m = meta_or_empty l;
          cBy = js_or (createdBy m) (Some (JStr (my_name st)));
          p2 = assign_val p1 ''_createdBy'' cBy;
          cAt = js_or (createdAt m) (Some (JStr (now e)));
          p3 = assign_val p2 ''_createdAt'' cAt;
          p4 = assign_val p3 ''_updatedBy'' (js_or (updatedBy m) cBy);
          p5 = assign_val p4 ''_updatedAt'' (js_or (updatedAt m) cAt);
          p6 = persist_texts l (persist_style l p5);
          p7 = assign_val p6 ''_id'' id2;
          p8 = (if truthy (createdBy m) then assign_val p7 ''_createdBy'' (createdBy m) else p7);
          p9 = (if truthy (createdAt m) then assign_val p8 ''_createdAt'' (createdAt m) else p8);
          p10 = (if truthy (updatedBy m) then assign_val p9 ''_updatedBy'' (updatedBy m) else p9)
      in if truthy (updatedAt m) then assign_val p10 ''_updatedAt'' (updatedAt m) else p10)"

definition toSingleGeoJSON :: "env \<Rightarrow> client \<Rightarrow> layer \<Rightarrow> client \<times> layer \<times> json option" where
  "toSingleGeoJSON e st l =
     (case geometryOf e l of
        None \<Rightarrow> (st, l, None)
      | Some geo \<Rightarrow>
          (let (n1, id1) = id_or_fresh e (uuid_calls st) l;
               (n2, id2) = id_or_fresh e n1 l;
               (l1, gj) = write_props l geo (single_props e st l id1 id2)
           in (st\<lparr> uuid_calls := n2 \<rparr>, l1, Some gj)))"

text \<open>
  \<open>send(type, payload)\<close>: nothing while not connected; else the envelope with the
  payload's properties assigned over it goes to \<open>ws.send\<close>, whose exception is caught.
\<close>

definition send :: "client \<Rightarrow> string \<Rightarrow> (string \<times> json) list \<Rightarrow> client" where
  "send st ty payload =
     (if \<not> ws_connected st then st
      else st\<lparr> outbox := outbox st @
             [JObj (foldl (\<lambda>kvs kv. assign kvs (fst kv) (snd kv))
                      [(''type'', JStr ty), (''room'', JStr (local_room st)),
                       (''user'', JObj [(''id'', JStr (my_id st)), (''name'', JStr (my_name st)),
                                        (''color'', JStr (my_color st))])]
                      payload)] \<rparr>)"

text \<open>
  \<open>sendAdd\<close>, \<open>sendEdit\<close>, \<open>sendRemove\<close>. Their argument is a layer of \<open>drawn\<close>, given
  by its position (a position past the end stands for no layer); what they set on the
  layer is set on the layer in \<open>drawn\<close>.
\<close>

definition setMetaOnCreate :: "env \<Rightarrow> client \<Rightarrow> layer \<Rightarrow> client \<times> layer" where
  "setMetaOnCreate e st l =
     (case ensureLayerId e (uuid_calls st) l of
        (n1, l1) \<Rightarrow>
          (st\<lparr> uuid_calls := n1 \<rparr>,
           l1\<lparr> opt_meta := Some \<lparr> createdBy = Some (JStr (my_name st)),
                                   createdAt = Some (JStr (now e)),
                                   updatedBy = Some (JStr (my_name st)),
                                   updatedAt = Some (JStr (now e)) \<rparr> \<rparr>))"

definition updateMetaOnEdit :: "env \<Rightarrow> client \<Rightarrow> layer \<Rightarrow> layer" where
  "updateMetaOnEdit e st l =
     l\<lparr> opt_meta := Some ((meta_or_empty l)\<lparr> updatedBy := Some (JStr (my_name st)),
                                             updatedAt := Some (JStr (now e)) \<rparr>) \<rparr>"

definition sendAdd :: "env \<Rightarrow> client \<Rightarrow> nat \<Rightarrow> result" where
  "sendAdd e st i =
     (if isRemoteApplying st then (st, None)
      else if \<not> i < length (drawn st) then (st, Some TypeError)
      else (case ensureLayerId e (uuid_calls st) (drawn st ! i) of
              (n1, l1) \<Rightarrow>
                (case setMetaOnCreate e (st\<lparr> uuid_calls := n1 \<rparr>) l1 of
                   (st2, l2) \<Rightarrow>
                     (let st3 = st2\<lparr> drawn := (drawn st2)[i := l2] \<rparr>
                      in case toSingleGeoJSON e st3 l2 of
                           (st4, l3, None) \<Rightarrow> (st4, Some LeafletError)
                         | (st4, l3, Some gj) \<Rightarrow>
                             (send (st4\<lparr> drawn := (drawn st4)[i := l3] \<rparr>)
                                ''feature:add'' [(''feature'', gj)],
                              None)))))"

definition sendEdit :: "env \<Rightarrow> client \<Rightarrow> nat \<Rightarrow> result" where
  "sendEdit e st i =
     (if isRemoteApplying st then (st, None)
      else if \<not> i < length (drawn st) then (st, None)
      else (let l1 = updateMetaOnEdit e st (drawn st ! i);
                st1 = st\<lparr> drawn := (drawn st)[i := l1] \<rparr>
            in case toSingleGeoJSON e st1 l1 of
                 (st2, l2, None) \<Rightarrow> (st2, Some LeafletError)
               | (st2, l2, Some gj) \<Rightarrow>
                   (send (st2\<lparr> drawn := (drawn st2)[i := l2] \<rparr>)
                      ''feature:edit'' [(''feature'', gj)],
                    None)))"

definition sendRemove :: "env \<Rightarrow> client \<Rightarrow> nat \<Rightarrow> result" where
  "sendRemove e st i =
     (if isRemoteApplying st then (st, None)
      else if \<not> i < length (drawn st) then (st, None)
      else (case opt_id (drawn st ! i) of
              None \<Rightarrow> (st, None)
            | Some ident \<Rightarrow>
                if truthy (Some ident) then (send st ''feature:remove'' [(''id'', ident)], None)
                else (st, None)))"

section \<open>The client (app.js): the undo and redo history\<close>



text \<open>
  The \<open>onEachFeature\<close> callback of \<open>restoreFromGeoJSON\<close>, which does to the layer what
  that of \<open>addFeatureFromRemote\<close> does, and \<open>restoreFromGeoJSON\<close> itself.
\<close>

definition restored_layer ::
  "env \<Rightarrow> nat \<Rightarrow> json \<times> layer_kind \<times> json \<Rightarrow> nat \<times> layer \<times> js_error option" where
  "restored_layer e n leaf =
     (let layer0 = built_layer e leaf;
          (n1, layer1) = ensureLayerId e n layer0;
          p = props_of (fst leaf);
          (n2, layer2) = ensureLayerId e n1 layer1;
          layer3 = layer2\<lparr> opt_id := js_or (jprop p ''_id'') (opt_id layer2) \<rparr>;
          layer4 = layer3\<lparr> opt_meta := Some (remote_meta p) \<rparr>;
          layer5 = remote_style p layer4;
          (layer6, err) = (if truthy (jprop p ''label'') then bindTooltip e layer5 (jprop p ''label'')
                           else (layer5, None))
      in if err \<noteq> None then (n2, layer6, err)
         else (n2,
               if truthy (jprop p ''popup'') then layer6\<lparr> popup := jprop p ''popup'' \<rparr>
               else layer6,
               None))"

definition restoreFromGeoJSON :: "env \<Rightarrow> client \<Rightarrow> json \<Rightarrow> result" where
  "restoreFromGeoJSON e st geojson = geoJSON_with e (restored_layer e) st geojson"

text \<open>
  The layers a replay appends to \<open>drawn\<close>, those Leaflet built up to the first whose
  callback throws, given the number of \<open>uuidv4()\<close> calls made before it; and the
  exception of that callback.
\<close>

definition replay_layers :: "env \<Rightarrow> nat \<Rightarrow> (json \<times> layer_kind \<times> json) list \<Rightarrow> layer list" where
  "replay_layers e n leaves = fst (snd (onEachFeature_calls (restored_layer e) n leaves))"

definition replay_error ::
  "env \<Rightarrow> nat \<Rightarrow> (json \<times> layer_kind \<times> json) list \<Rightarrow> js_error option" where
  "replay_error e n leaves = snd (snd (onEachFeature_calls (restored_layer e) n leaves))"

text \<open>
  \<open>loadState(geojson)\<close>: the flag is set, \<open>drawn\<close> is cleared, the snapshot is
  replayed, and the \<open>finally\<close> clears the flag; there is no \<open>catch\<close>, so an exception
  of the replay escapes.
\<close>

definition loadState :: "env \<Rightarrow> client \<Rightarrow> json \<Rightarrow> result" where
  "loadState e st geojson =
     (let st1 = st\<lparr> isRestoring := True \<rparr>;
          st2 = st1\<lparr> drawn := [] \<rparr>
      in case restoreFromGeoJSON e st2 geojson of
           (st3, r) \<Rightarrow> (st3\<lparr> isRestoring := False \<rparr>, r))"

definition canUndo :: "client \<Rightarrow> bool" where
  "canUndo st = (length (undoStack st) > 1)"

definition canRedo :: "client \<Rightarrow> bool" where
  "canRedo st = (length (redoStack st) > 0)"

definition undo :: "env \<Rightarrow> client \<Rightarrow> result" where
  "undo e st =
     (if \<not> canUndo st then (st, None)
      else (let curr = last (undoStack st);
                st1 = st\<lparr> undoStack := butlast (undoStack st),
                          redoStack := redoStack st @ [curr] \<rparr>;
                prev = JSON_parse (last (undoStack st1))
            in loadState e st1 prev))"

definition redo :: "env \<Rightarrow> client \<Rightarrow> result" where
  "redo e st =
     (if \<not> canRedo st then (st, None)
      else (let state = last (redoStack st);
                st1 = st\<lparr> redoStack := butlast (redoStack st),
                          undoStack := undoStack st @ [state] \<rparr>
            in loadState e st1 (JSON_parse state)))"

section \<open>The client (app.js): what a commit captures and a replay rebuilds\<close>





section \<open>Sample inputs\<close>

text \<open>
  An environment for evaluating the client on concrete inputs. It answers as Leaflet
  does on GeoJSON of this shape: a feature or a bare geometry, or a feature collection
  of such, where a geometry is a \<open>Point\<close>, \<open>MultiPoint\<close>, \<open>LineString\<close>,
  \<open>MultiLineString\<close>, \<open>Polygon\<close> or \<open>MultiPolygon\<close> whose coordinates are numbers
  nested as its type requires, or is absent, or has a type that is no GeoJSON type.
  Geometry collections, collections inside collections and coordinates that are not
  numbers are outside of what it covers.
  \<^item> \<open>sample_geoJSON\<close>: a feature without a geometry gives no layer; a point gives a
    marker, a line string or multi-line string a polyline, a polygon or multi-polygon
    a polygon, a multi-point a feature group; the walk throws (\<open>Invalid GeoJSON
    object\<close>) at the first geometry of another type, and at coordinates it cannot
    convert.
  \<^item> \<open>sample_geometryOf\<close>: the geometry \<open>toGeoJSON\<close> makes of the coordinates, each
    number rounded to six decimals (\<open>formatNum\<close>), each ring of a polygon closed; a
    polyline is a \<open>LineString\<close> when its coordinates are a flat list of points and a
    \<open>MultiLineString\<close> otherwise, and likewise for a polygon.
  \<^item> \<open>sample_tooltipOpens\<close>: a tooltip finds its anchor when the layer has a point.
  \<^item> \<open>toStr\<close> is given for a string, which is itself, and for \<open>undefined\<close>.
\<close>

fun is_point :: "json \<Rightarrow> bool" where
  "is_point (JArr (JNum x # JNum y # rest)) = True"
| "is_point v = False"

fun points :: "json \<Rightarrow> bool" where
  "points (JArr ps) = list_all is_point ps"
| "points v = False"

fun lists_of :: "(json \<Rightarrow> bool) \<Rightarrow> json \<Rightarrow> bool" where
  "lists_of P (JArr xs) = list_all P xs"
| "lists_of P v = False"

definition sample_kind :: "json \<Rightarrow> (layer_kind \<times> json) option" where
  "sample_kind g =
     (case (jprop g ''type'', jprop g ''coordinates'') of
        (Some (JStr t), Some c) \<Rightarrow>
          if t = ''Point'' \<and> is_point c then Some (Marker, c)
          else if t = ''MultiPoint'' \<and> points c then Some (FeatureGroup, c)
          else if t = ''LineString'' \<and> points c then Some (Polyline, c)
          else if t = ''MultiLineString'' \<and> lists_of points c then Some (Polyline, c)
          else if t = ''Polygon'' \<and> lists_of points c then Some (Polygon, c)
          else if t = ''MultiPolygon'' \<and> lists_of (lists_of points) c then Some (Polygon, c)
          else None
      | _ \<Rightarrow> None)"

text \<open>The geometry of a GeoJSON object: its \<open>geometry\<close> when it is a feature, else itself.\<close>

definition sample_geometry :: "json \<Rightarrow> jsval" where
  "sample_geometry f =
     (if jprop f ''type'' = Some (JStr ''Feature'') then jprop f ''geometry'' else Some f)"

fun sample_walk :: "json list \<Rightarrow> (json \<times> layer_kind \<times> json) list \<times> bool" where
  "sample_walk [] = ([], False)"
| "sample_walk (f # fs) =
     (case sample_geometry f of
        None \<Rightarrow> sample_walk fs
      | Some g \<Rightarrow>
          if \<not> truthy (Some g) then sample_walk fs
          else (case sample_kind g of
                  None \<Rightarrow> ([], True)
                | Some (k, c) \<Rightarrow>
                    (case sample_walk fs of (ls, threw) \<Rightarrow> ((f, k, c) # ls, threw))))"

definition sample_geoJSON :: "json \<Rightarrow> (json \<times> layer_kind \<times> json) list \<times> bool" where
  "sample_geoJSON g =
     (case g of
        JArr fs \<Rightarrow> sample_walk fs
      | _ \<Rightarrow> (case jprop g ''features'' of
                 Some (JArr fs) \<Rightarrow> sample_walk fs
               | _ \<Rightarrow> sample_walk [g]))"

definition formatNum :: "rat \<Rightarrow> rat" where
  "formatNum x = of_int \<lfloor>x * 1000000 + 1 / 2\<rfloor> / 1000000"

fun round_point :: "json \<Rightarrow> json" where
  "round_point (JArr (JNum x # JNum y # JNum z # rest)) =
     JArr [JNum (formatNum x), JNum (formatNum y), JNum (formatNum z)]"
| "round_point (JArr (JNum x # JNum y # rest)) = JArr [JNum (formatNum x), JNum (formatNum y)]"
| "round_point v = v"

fun round_points :: "json \<Rightarrow> json" where
  "round_points (JArr ps) = JArr (map round_point ps)"
| "round_points v = v"

fun closed_ring :: "json \<Rightarrow> json" where
  "closed_ring (JArr ps) =
     (let qs = map round_point ps
      in if qs = [] then JArr []
         else if 2 \<le> length qs \<and> last qs = hd qs then JArr qs
         else JArr (qs @ [hd qs]))"
| "closed_ring v = v"

fun each_of :: "(json \<Rightarrow> json) \<Rightarrow> json \<Rightarrow> json" where
  "each_of f (JArr xs) = JArr (map f xs)"
| "each_of f v = v"

definition sample_geometryOf :: "layer \<Rightarrow> jsval" where
  "sample_geometryOf l =
     Some (case kind l of
             Marker \<Rightarrow>
               JObj [(''type'', JStr ''Point''), (''coordinates'', round_point (latlngs l))]
           | FeatureGroup \<Rightarrow>
               JObj [(''type'', JStr ''MultiPoint''), (''coordinates'', round_points (latlngs l))]
           | Polyline \<Rightarrow>
               if points (latlngs l)
               then JObj [(''type'', JStr ''LineString''),
                          (''coordinates'', round_points (latlngs l))]
               else JObj [(''type'', JStr ''MultiLineString''),
                          (''coordinates'', each_of round_points (latlngs l))]
           | Polygon \<Rightarrow>
               if lists_of points (latlngs l)
               then JObj [(''type'', JStr ''Polygon''),
                          (''coordinates'', each_of closed_ring (latlngs l))]
               else JObj [(''type'', JStr ''MultiPolygon''),
                          (''coordinates'', each_of (each_of closed_ring) (latlngs l))])"

fun has_point :: "nat \<Rightarrow> json \<Rightarrow> bool" where
  "has_point d (JArr xs) =
     (is_point (JArr xs) \<or> (case d of 0 \<Rightarrow> False | Suc d' \<Rightarrow> list_ex (has_point d') xs))"
| "has_point d v = False"

definition sample_tooltipOpens :: "layer_kind \<Rightarrow> json \<Rightarrow> bool" where
  "sample_tooltipOpens k ll = has_point 3 ll"

definition sample_env :: env where
  "sample_env =
     \<lparr> geoJSON = sample_geoJSON,
       geometryOf = sample_geometryOf,
       tooltipOpens = sample_tooltipOpens,
       markerAt = (\<lambda>ll. case ll of JArr [JNum a, JNum b] \<Rightarrow> True | _ \<Rightarrow> False),
       coordsToLatLngs = (\<lambda>c d. case c of Some (JArr xs) \<Rightarrow> Some (JArr xs) | _ \<Rightarrow> None),
       toStr = (\<lambda>v. case v of Some (JStr s) \<Rightarrow> s | _ \<Rightarrow> ''undefined''),
       uuidv4 = (\<lambda>n. ''uuid-'' @ replicate n (CHR ''i'')),
       now = ''2025-01-01T00:00:00.000Z'' \<rparr>"

text \<open>The local user Ann in room \<open>demo\<close>, connected, with an empty store.\<close>

definition ann :: client where
  "ann =
     \<lparr> my_id = ''u1'', my_name = ''Ann'', my_color = ''hsl(200 70% 55%)'',
       local_room = ''demo'', ws_connected = True, participants = [], drawn = [],
       undoStack = [], redoStack = [], isRestoring = False, isRemoteApplying = False,
       outbox = [], uuid_calls = 0 \<rparr>"

text \<open>The remote user Bob, two features, and messages from Bob.\<close>

definition bob :: json where
  "bob = JObj [(''id'', JStr ''u2''), (''name'', JStr ''Bob''), (''color'', JStr ''red'')]"

definition line_f1 :: json where
  "line_f1 =
     JObj [(''type'', JStr ''Feature''),
           (''properties'', JObj [(''_id'', JStr ''f_1'')]),
           (''geometry'', JObj [(''type'', JStr ''LineString''),
                                (''coordinates'', JArr [JArr [JNum 0, JNum 0], JArr [JNum 1, JNum 1]])])]"

definition circle_f2 :: json where
  "circle_f2 =
     JObj [(''type'', JStr ''Feature''),
           (''properties'', JObj [(''_id'', JStr ''f_2'')]),
           (''geometry'', JObj [(''type'', JStr ''Circle''), (''coordinates'', JArr [])])]"

definition from_bob :: "string \<Rightarrow> string \<Rightarrow> (string \<times> json) list \<Rightarrow> json" where
  "from_bob ty r payload =
     JObj ([(''type'', JStr ty), (''room'', JStr r), (''user'', bob)] @ payload)"

text \<open>A snapshot whose second feature Leaflet rejects.\<close>

definition corrupt_snapshot :: json where
  "corrupt_snapshot =
     JObj [(''type'', JStr ''FeatureCollection''), (''features'', JArr [line_f1, circle_f2])]"

text \<open>Two messages that carry a feature but no usable sender.\<close>

definition add_without_user :: json where
  "add_without_user =
     JObj [(''type'', JStr ''feature:add''), (''room'', JStr ''demo''), (''feature'', line_f1)]"

definition add_user_without_id :: json where
  "add_user_without_id =
     JObj [(''type'', JStr ''feature:add''), (''room'', JStr ''demo''),
           (''user'', JObj [(''name'', JStr ''Bob'')]), (''feature'', line_f1)]"

text \<open>A message of Ann's own, as the relay sends it back to her.\<close>

definition own_echo :: json where
  "own_echo =
     JObj [(''type'', JStr ''hello''), (''room'', JStr ''demo''),
           (''user'', JObj [(''id'', JStr ''u1''), (''name'', JStr ''Ann''),
                            (''color'', JStr ''hsl(200 70% 55%)'')])]"

text \<open>Ann with one snapshot on the undo stack, and Ann after Bob's line has been added.\<close>

definition ann_with_history :: client where
  "ann_with_history =
     ann\<lparr> undoStack := [Stringified (JObj [(''type'', JStr ''FeatureCollection''),
                                             (''features'', JArr [])])] \<rparr>"

definition ann_with_line :: client where
  "ann_with_line =
     fst (handle sample_env ann_with_history
            (from_bob ''feature:add'' ''demo'' [(''feature'', line_f1)]))"

text \<open>Bob's \<open>feature:add\<close> of a feature Leaflet rejects.\<close>

definition bad_add :: json where
  "bad_add = from_bob ''feature:add'' ''demo'' [(''feature'', circle_f2)]"

text \<open>A labelled point, and Ann's store after Bob has added the line and the point.\<close>

definition point_f3 :: json where
  "point_f3 =
     JObj [(''type'', JStr ''Feature''),
           (''properties'', JObj [(''_id'', JStr ''f_3''), (''label'', JStr ''Here'')]),
           (''geometry'', JObj [(''type'', JStr ''Point''),
                                (''coordinates'', JArr [JNum 1, JNum 2])])]"

definition ann_with_two :: client where
  "ann_with_two =
     fst (handle sample_env ann_with_line
            (from_bob ''feature:add'' ''demo'' [(''feature'', point_f3)]))"






text \<open>
  A feature with an identifier no layer has and a label that is a number, and Bob's
  \<open>feature:edit\<close> carrying it.
\<close>

definition line_f9 :: json where
  "line_f9 =
     JObj [(''type'', JStr ''Feature''),
           (''properties'', JObj [(''_id'', JStr ''f_9''), (''label'', JNum 5)]),
           (''geometry'', JObj [(''type'', JStr ''LineString''),
                                (''coordinates'', JArr [JArr [JNum 0, JNum 0], JArr [JNum 1, JNum 1]])])]"











section \<open>Facts about the relay\<close>

lemma set_add_set: "set (set_add s xs) = insert s (set xs)"
  by (auto simp: set_add_def)

lemma set_add_distinct: "distinct xs \<Longrightarrow> distinct (set_add s xs)"
  by (simp add: set_add_def)

lemma set_add_not_Nil: "set_add s xs \<noteq> []"
  by (auto simp: set_add_def)

lemma relay_inv_new: "relay_inv new_relay"
  by (simp add: relay_inv_def new_relay_def)

lemma register_bound:
  "sessionRoom st s = Some b \<Longrightarrow> register_session st s room = st"
  by (simp add: register_session_def)

lemma register_unbound_rooms:
  "sessionRoom st s = None \<Longrightarrow>
   rooms (register_session st s room) =
     (rooms st)(room \<mapsto> set_add s (case rooms st room of None \<Rightarrow> [] | Some xs \<Rightarrow> xs))"
  by (simp add: register_session_def)

lemma register_unbound_sessionRoom:
  "sessionRoom st s = None \<Longrightarrow>
   sessionRoom (register_session st s room) = (sessionRoom st)(s \<mapsto> room)"
  by (simp add: register_session_def)

lemma relay_inv_register:
  assumes inv: "relay_inv st"
  shows "relay_inv (register_session st s room)"
proof (cases "sessionRoom st s")
  case (Some b)
  then show ?thesis using inv by (simp add: register_bound)
next
  case None
  have notin: "\<And>r xs. rooms st r = Some xs \<Longrightarrow> s \<notin> set xs"
    using inv None by (auto simp: relay_inv_def)
  let ?st = "register_session st s room"
  have R: "rooms ?st = (rooms st)(room \<mapsto> set_add s (case rooms st room of None \<Rightarrow> [] | Some xs \<Rightarrow> xs))"
    by (rule register_unbound_rooms [OF None])
  have S: "sessionRoom ?st = (sessionRoom st)(s \<mapsto> room)"
    by (rule register_unbound_sessionRoom [OF None])
  have a: "xs \<noteq> [] \<and> distinct xs \<and> (\<forall>t \<in> set xs. sessionRoom ?st t = Some r)"
    if h: "rooms ?st r = Some xs" for r xs
  proof (cases "r = room")
    case True
    then have xs: "xs = set_add s (case rooms st room of None \<Rightarrow> [] | Some ys \<Rightarrow> ys)"
      using h R by simp
    show ?thesis
    proof (cases "rooms st room")
      case None
      then show ?thesis using xs True S by (simp add: set_add_def)
    next
      case (Some ys)
      then have "ys \<noteq> [] \<and> distinct ys \<and> (\<forall>t \<in> set ys. sessionRoom st t = Some room)"
        using inv by (simp add: relay_inv_def)
      then show ?thesis using xs Some True S
        by (auto simp: set_add_set set_add_distinct set_add_not_Nil)
    qed
  next
    case False
    then have old: "rooms st r = Some xs" using h R by simp
    then have "xs \<noteq> [] \<and> distinct xs \<and> (\<forall>t \<in> set xs. sessionRoom st t = Some r)"
      using inv by (simp add: relay_inv_def)
    moreover have "s \<notin> set xs" using notin old by simp
    ultimately show ?thesis using S by auto
  qed
  have b: "t \<in> room_members ?st r" if h: "sessionRoom ?st t = Some r" for t r
  proof (cases "t = s")
    case True
    then have "r = room" using h S by simp
    then show ?thesis using True R by (simp add: room_members_def set_add_set)
  next
    case False
    then have "sessionRoom st t = Some r" using h S by simp
    then have m: "t \<in> room_members st r" using inv by (simp add: relay_inv_def)
    show ?thesis
    proof (cases "r = room")
      case True
      then show ?thesis using m R
        by (auto simp: room_members_def set_add_set split: option.splits)
    next
      case False
      then show ?thesis using m R by (simp add: room_members_def)
    qed
  qed
  show ?thesis unfolding relay_inv_def using a b by blast
qed

lemma relay_inv_handle:
  "relay_inv st \<Longrightarrow> handleTextMessage rd tr st s p = Inr (st1, ds) \<Longrightarrow> relay_inv st1"
  by (auto simp: handleTextMessage_def Let_def relay_inv_register split: room_field.splits)

lemma set_remove_set: "set (set_remove s xs) = set xs - {s}"
  by (auto simp: set_remove_def)

lemma close_unbound: "sessionRoom st s = None \<Longrightarrow> afterConnectionClosed st s = st"
  by (simp add: afterConnectionClosed_def)

lemma close_sessionRoom:
  "sessionRoom (afterConnectionClosed st s) = (sessionRoom st)(s := None)"
  by (auto simp: afterConnectionClosed_def Let_def split: option.splits)

lemma close_rooms:
  assumes inv: "relay_inv st" and r: "rooms st r = Some xs"
  shows "rooms (afterConnectionClosed st s) r =
           (if set_remove s xs = [] then None else Some (set_remove s xs))"
proof (cases "sessionRoom st s")
  case None
  then have "s \<notin> set xs" using inv r by (auto simp: relay_inv_def)
  then have "set_remove s xs = xs" by (simp add: set_remove_def)
  moreover have "xs \<noteq> []" using inv r by (auto simp: relay_inv_def)
  ultimately show ?thesis using None r by (simp add: close_unbound)
next
  case (Some b)
  show ?thesis
  proof (cases "b = r")
    case True
    then show ?thesis using Some r
      by (simp add: afterConnectionClosed_def Let_def)
  next
    case False
    have "s \<notin> set xs" using inv r Some False by (auto simp: relay_inv_def)
    then have same: "set_remove s xs = xs" by (simp add: set_remove_def)
    have ne: "xs \<noteq> []" using inv r by (auto simp: relay_inv_def)
    have "rooms (afterConnectionClosed st s) r = rooms st r"
      using Some False
      by (auto simp: afterConnectionClosed_def Let_def split: option.splits)
    then show ?thesis using same ne r by simp
  qed
qed

lemma close_rooms_None:
  "rooms st r = None \<Longrightarrow> rooms (afterConnectionClosed st s) r = None"
  by (auto simp: afterConnectionClosed_def Let_def split: option.splits)

lemma relay_inv_close:
  assumes inv: "relay_inv st"
  shows "relay_inv (afterConnectionClosed st s)"
proof -
  let ?st = "afterConnectionClosed st s"
  have S: "sessionRoom ?st = (sessionRoom st)(s := None)" by (rule close_sessionRoom)
  have a: "xs \<noteq> [] \<and> distinct xs \<and> (\<forall>t \<in> set xs. sessionRoom ?st t = Some r)"
    if h: "rooms ?st r = Some xs" for r xs
  proof (cases "rooms st r")
    case None
    then show ?thesis using h by (simp add: close_rooms_None)
  next
    case (Some ys)
    then have ys: "ys \<noteq> [] \<and> distinct ys \<and> (\<forall>t \<in> set ys. sessionRoom st t = Some r)"
      using inv by (simp add: relay_inv_def)
    have "rooms ?st r = (if set_remove s ys = [] then None else Some (set_remove s ys))"
      by (rule close_rooms [OF inv Some])
    then have xs: "xs = set_remove s ys" "xs \<noteq> []"
      using h by (auto split: if_splits)
    then show ?thesis using ys S by (auto simp: set_remove_def distinct_removeAll)
  qed
  have b: "t \<in> room_members ?st r" if h: "sessionRoom ?st t = Some r" for t r
  proof -
    have ts: "t \<noteq> s" and old: "sessionRoom st t = Some r"
      using h S by (auto split: if_splits)
    then have "t \<in> room_members st r" using inv by (simp add: relay_inv_def)
    then obtain ys where ys: "rooms st r = Some ys" "t \<in> set ys"
      by (auto simp: room_members_def split: option.splits)
    have "rooms ?st r = (if set_remove s ys = [] then None else Some (set_remove s ys))"
      by (rule close_rooms [OF inv ys(1)])
    moreover have "t \<in> set (set_remove s ys)" using ys ts by (simp add: set_remove_set)
    ultimately show ?thesis by (auto simp: room_members_def)
  qed
  show ?thesis unfolding relay_inv_def using a b by blast
qed

lemma broadcast_loop_payload:
  "(t, q) \<in> set (broadcast_loop tr xs p) \<Longrightarrow> q = p \<and> t \<in> set xs"
  by (induction xs) (auto split: if_splits)

lemma broadcast_loop_count:
  "distinct xs \<Longrightarrow>
   count_list (broadcast_loop tr xs p) (t, p) =
     (if t \<in> set xs \<and> isOpen tr t \<and> \<not> sendFails tr t then 1 else 0)"
  by (induction xs) auto

lemma close_all_rooms_None:
  "rooms st r = None \<Longrightarrow> rooms (close_all st cs) r = None"
  by (induction cs arbitrary: st) (simp_all add: close_rooms_None)

lemma close_all_sessionRoom:
  "s \<in> set cs \<Longrightarrow> sessionRoom (close_all st cs) s = None"
proof (induction cs arbitrary: st)
  case Nil
  then show ?case by simp
next
  case (Cons c cs)
  have keep: "\<And>st'. sessionRoom st' s = None \<Longrightarrow> sessionRoom (close_all st' cs) s = None"
  proof -
    fix st' :: relay
    assume "sessionRoom st' s = None"
    then show "sessionRoom (close_all st' cs) s = None"
      by (induction cs arbitrary: st') (simp_all add: close_sessionRoom)
  qed
  show ?case
  proof (cases "s = c")
    case True
    then have "sessionRoom (afterConnectionClosed st c) s = None"
      by (simp add: close_sessionRoom)
    then show ?thesis using keep by simp
  next
    case False
    then show ?thesis using Cons by simp
  qed
qed

lemma close_all_room_gone:
  "relay_inv st \<Longrightarrow> rooms st r = Some xs \<Longrightarrow> set xs \<subseteq> set cs \<Longrightarrow>
   rooms (close_all st cs) r = None"
proof (induction cs arbitrary: st xs)
  case Nil
  then show ?case by (auto simp: relay_inv_def)
next
  case (Cons c cs)
  let ?st = "afterConnectionClosed st c"
  have inv': "relay_inv ?st" using Cons.prems(1) by (rule relay_inv_close)
  have R: "rooms ?st r = (if set_remove c xs = [] then None else Some (set_remove c xs))"
    by (rule close_rooms [OF Cons.prems(1) Cons.prems(2)])
  show ?case
  proof (cases "set_remove c xs = []")
    case True
    then show ?thesis using R by (simp add: close_all_rooms_None)
  next
    case False
    then have r': "rooms ?st r = Some (set_remove c xs)" using R by simp
    have "set (set_remove c xs) \<subseteq> set cs"
      using Cons.prems(3) by (auto simp: set_remove_set)
    then show ?thesis using Cons.IH [OF inv' r'] by simp
  qed
qed


lemma relay_inv_after_msg: "relay_inv st \<Longrightarrow> relay_inv (after_msg st s p)"
  by (auto simp: after_msg_def dest: relay_inv_handle split: sum.splits)

lemma relay_inv_two_in_A: "relay_inv two_in_A"
  by (simp add: two_in_A_def relay_inv_after_msg relay_inv_new)

lemma relay_inv_three_sessions: "relay_inv three_sessions"
  by (simp add: three_sessions_def relay_inv_after_msg relay_inv_new)

lemma sample_payloads_differ:
  "hello_A \<noteq> hello_B" "hello_B \<noteq> hello_A" "hello_A \<noteq> hello_noroom" "hello_B \<noteq> hello_noroom"
  "hello_noroom \<noteq> hello_A" "hello_noroom \<noteq> hello_B"
  by (simp_all add: hello_A_def hello_B_def hello_noroom_def)

lemma sample_reader_simps:
  "sample_reader hello_A = Present ''A''" "sample_reader hello_B = Present ''B''"
  "sample_reader hello_noroom = Absent"
  by (simp_all add: sample_reader_def sample_payloads_differ)

lemma two_in_A_rooms: "rooms two_in_A = [''A'' \<mapsto> [1, 2]]"
  by (simp add: two_in_A_def after_msg_def handleTextMessage_def sample_reader_simps
      declared_room_def register_session_def new_relay_def set_add_def Let_def)

lemma two_in_A_sessionRoom: "sessionRoom two_in_A = [1 \<mapsto> ''A'', 2 \<mapsto> ''A'']"
  by (simp add: two_in_A_def after_msg_def handleTextMessage_def sample_reader_simps
      declared_room_def register_session_def new_relay_def set_add_def Let_def)

lemma three_sessions_rooms: "rooms three_sessions = [''A'' \<mapsto> [1, 3], ''B'' \<mapsto> [2]]"
  by (auto simp: three_sessions_def after_msg_def handleTextMessage_def sample_reader_simps
      declared_room_def register_session_def new_relay_def set_add_def Let_def)

lemma three_sessions_sessionRoom:
  "sessionRoom three_sessions = [1 \<mapsto> ''A'', 2 \<mapsto> ''B'', 3 \<mapsto> ''A'']"
  by (auto simp: three_sessions_def after_msg_def handleTextMessage_def sample_reader_simps
      declared_room_def register_session_def new_relay_def set_add_def Let_def)

lemma handle_Inr:
  "handleTextMessage rd tr st s p = Inr (st1, ds) \<Longrightarrow>
   rd p \<noteq> Unreadable \<and> st1 = register_session st s (declared_room (rd p)) \<and>
   ds = broadcast tr st1 (declared_room (rd p)) p"
  by (auto simp: handleTextMessage_def Let_def split: room_field.splits)

lemma broadcast_count:
  assumes inv: "relay_inv st"
  shows "count_list (broadcast tr st r p) (t, p) =
           (if t \<in> room_members st r \<and> isOpen tr t \<and> \<not> sendFails tr t then 1 else 0)"
proof (cases "rooms st r")
  case None
  then show ?thesis by (simp add: broadcast_def room_members_def)
next
  case (Some xs)
  then have "distinct xs" using inv by (simp add: relay_inv_def)
  then show ?thesis using Some
    by (simp add: broadcast_def room_members_def broadcast_loop_count)
qed

lemma broadcast_payload:
  "(t, q) \<in> set (broadcast tr st r p) \<Longrightarrow> q = p \<and> t \<in> room_members st r"
  by (auto simp: broadcast_def room_members_def dest: broadcast_loop_payload split: option.splits)

lemma relay_inv_member:
  "relay_inv st \<Longrightarrow> rooms st r = Some xs \<Longrightarrow> s \<in> set xs \<Longrightarrow> sessionRoom st s = Some r"
  by (simp add: relay_inv_def)

lemma relay_inv_bound:
  "relay_inv st \<Longrightarrow> sessionRoom st s = Some r \<Longrightarrow> s \<in> room_members st r"
  by (simp add: relay_inv_def)

lemma member_bound:
  assumes inv: "relay_inv st"
  shows "s \<in> room_members st r \<longleftrightarrow> sessionRoom st s = Some r"
proof
  assume "s \<in> room_members st r"
  then obtain xs where "rooms st r = Some xs" "s \<in> set xs"
    by (auto simp: room_members_def split: option.splits)
  then show "sessionRoom st s = Some r" using inv by (rule_tac relay_inv_member)
next
  assume "sessionRoom st s = Some r"
  then show "s \<in> room_members st r" using inv by (simp add: relay_inv_bound)
qed

lemma register_sessionRoom_self:
  "sessionRoom (register_session st s r) s =
     (case sessionRoom st s of None \<Rightarrow> Some r | Some b \<Rightarrow> Some b)"
  by (simp add: register_session_def split: option.splits)

text \<open>
  C1 (as amended). For every message the relay handles, after room binding the raw
  payload is sent unchanged, exactly once, to every open session registered in the room
  the message names whose send does not fail, and to no other session. The sender is
  not left out: it is among the recipients whenever it is registered in that room,
  which is the case on its first message and on every later message naming the room
  it is bound to.
\<close>
theorem relay_fanout_room_of_message:
  assumes inv: "relay_inv st"
    and run: "handleTextMessage rd tr st s p = Inr (st1, ds)"
  shows "(\<forall>t. count_list ds (t, p) =
            (if t \<in> room_members st1 (declared_room (rd p)) \<and> isOpen tr t \<and> \<not> sendFails tr t
             then 1 else 0)) \<and>
         (\<forall>t q. (t, q) \<in> set ds \<longrightarrow> q = p \<and> t \<in> room_members st1 (declared_room (rd p))) \<and>
         ((s \<in> room_members st1 (declared_room (rd p))) =
           (sessionRoom st s = None \<or> sessionRoom st s = Some (declared_room (rd p))))"
proof -
  let ?r = "declared_room (rd p)"
  from run have st1: "st1 = register_session st s ?r" and ds: "ds = broadcast tr st1 ?r p"
    by (auto dest: handle_Inr)
  have inv1: "relay_inv st1" using inv st1 by (simp add: relay_inv_register)
  have a: "\<forall>t. count_list ds (t, p) =
            (if t \<in> room_members st1 ?r \<and> isOpen tr t \<and> \<not> sendFails tr t then 1 else 0)"
    using ds broadcast_count [OF inv1] by simp
  have b: "\<forall>t q. (t, q) \<in> set ds \<longrightarrow> q = p \<and> t \<in> room_members st1 ?r"
    using ds broadcast_payload by blast
  have c: "(s \<in> room_members st1 ?r) = (sessionRoom st s = None \<or> sessionRoom st s = Some ?r)"
    using member_bound [OF inv1] st1
    by (auto simp: register_sessionRoom_self split: option.splits)
  show ?thesis by (rule conjI [OF a conjI [OF b c]])
qed

text \<open>
  The theorem of C1 at a concrete run: sessions 1 and 2 are in room A and session 1
  sends again.
\<close>
theorem relay_fanout_room_of_message_witness:
  "relay_inv two_in_A \<and>
   handleTextMessage sample_reader all_open two_in_A 1 hello_A
     = Inr (two_in_A, [(1::session, hello_A), (2, hello_A)]) \<and>
   (1::session) \<in> room_members two_in_A ''A''"
proof -
  have run: "handleTextMessage sample_reader all_open two_in_A 1 hello_A
     = Inr (two_in_A, [(1::session, hello_A), (2, hello_A)])"
    by (simp add: handleTextMessage_def sample_reader_simps declared_room_def Let_def
        register_session_def two_in_A_sessionRoom broadcast_def two_in_A_rooms all_open_def)
  have "1 \<in> room_members two_in_A (declared_room (sample_reader hello_A))"
    using relay_fanout_room_of_message [OF relay_inv_two_in_A run]
    by (simp add: two_in_A_sessionRoom sample_reader_simps declared_room_def)
  then show ?thesis using run relay_inv_two_in_A
    by (simp add: sample_reader_simps declared_room_def)
qed



text \<open>
  C1 as stated fails: the first message of session 1 on a fresh relay is delivered to
  session 1 itself.
\<close>
theorem relay_sender_gets_own_message:
  "handleTextMessage sample_reader all_open new_relay 1 hello_A
     = Inr (after_msg new_relay 1 hello_A, [(1, hello_A)])"
  by (simp add: after_msg_def handleTextMessage_def sample_reader_simps declared_room_def Let_def
        register_session_def broadcast_def new_relay_def all_open_def set_add_def)

lemma register_member_self:
  "sessionRoom st s = None \<Longrightarrow> s \<in> room_members (register_session st s r) r"
  by (simp add: register_session_def room_members_def set_add_set)

text \<open>
  C2 (as amended). The relay binds a session to a room only on a message that finds
  it unbound, to the room that message names; a message from a bound session changes
  neither map, whatever room it names. The room field of a later message is not
  ignored for routing: every message is broadcast to the sessions registered in the
  room the message itself names.
\<close>
theorem relay_binds_once_routes_by_declared_room:
  assumes run: "handleTextMessage rd tr st s p = Inr (st1, ds)"
  shows "(sessionRoom st s = None \<longrightarrow>
            sessionRoom st1 s = Some (declared_room (rd p)) \<and>
            s \<in> room_members st1 (declared_room (rd p))) \<and>
         (\<forall>b. sessionRoom st s = Some b \<longrightarrow> st1 = st) \<and>
         ds = broadcast tr st1 (declared_room (rd p)) p \<and>
         (\<forall>t q. (t, q) \<in> set ds \<longrightarrow> q = p \<and> t \<in> room_members st1 (declared_room (rd p)))"
proof -
  let ?r = "declared_room (rd p)"
  from run have st1: "st1 = register_session st s ?r" and ds: "ds = broadcast tr st1 ?r p"
    by (auto dest: handle_Inr)
  have a: "sessionRoom st s = None \<longrightarrow> sessionRoom st1 s = Some ?r \<and> s \<in> room_members st1 ?r"
    using st1 by (simp add: register_sessionRoom_self register_member_self)
  have b: "\<forall>b. sessionRoom st s = Some b \<longrightarrow> st1 = st"
    using st1 by (simp add: register_bound)
  have c: "\<forall>t q. (t, q) \<in> set ds \<longrightarrow> q = p \<and> t \<in> room_members st1 ?r"
    using ds broadcast_payload by blast
  show ?thesis by (rule conjI [OF a conjI [OF b conjI [OF ds c]]])
qed

text \<open>
  The theorem of C2 at a concrete run: session 1, bound to room A, names room B.
\<close>
theorem relay_binds_once_routes_by_declared_room_witness:
  "sessionRoom three_sessions 1 = Some ''A'' \<and>
   handleTextMessage sample_reader all_open three_sessions 1 hello_B
     = Inr (three_sessions, [(2, hello_B)]) \<and>
   (2::session) \<in> room_members three_sessions ''B''"
proof -
  have run: "handleTextMessage sample_reader all_open three_sessions 1 hello_B
     = Inr (three_sessions, [(2, hello_B)])"
    by (simp add: handleTextMessage_def sample_reader_simps declared_room_def Let_def
        register_session_def three_sessions_sessionRoom broadcast_def three_sessions_rooms
        all_open_def)
  have "(2::session) \<in> room_members three_sessions (declared_room (sample_reader hello_B))"
    using relay_binds_once_routes_by_declared_room [OF run] by simp
  then show ?thesis using run
    by (simp add: sample_reader_simps declared_room_def three_sessions_sessionRoom)
qed

text \<open>
  C2 as stated fails: session 1 is bound to room A, where session 3 is too; its
  message naming room B reaches session 2 in room B only, while a broadcast to the
  bound room A would have reached sessions 1 and 3.
\<close>
theorem relay_later_message_not_routed_to_bound_room:
  "sessionRoom three_sessions 1 = Some ''A'' \<and>
   handleTextMessage sample_reader all_open three_sessions 1 hello_B
     = Inr (three_sessions, [(2, hello_B)]) \<and>
   broadcast all_open three_sessions ''A'' hello_B = [(1, hello_B), (3, hello_B)]"
  by (simp add: handleTextMessage_def sample_reader_simps declared_room_def Let_def
        register_session_def three_sessions_sessionRoom broadcast_def three_sessions_rooms
        all_open_def)

lemma close_not_member:
  assumes inv: "relay_inv st"
  shows "s \<notin> room_members (afterConnectionClosed st s) r"
proof -
  have "relay_inv (afterConnectionClosed st s)" using inv by (rule relay_inv_close)
  then have "s \<in> room_members (afterConnectionClosed st s) r \<longleftrightarrow>
             sessionRoom (afterConnectionClosed st s) s = Some r"
    by (rule member_bound)
  then show ?thesis by (simp add: close_sessionRoom)
qed

lemma relay_inv_no_empty_room: "relay_inv st \<Longrightarrow> rooms st r \<noteq> Some []"
  by (auto simp: relay_inv_def)

lemma relay_inv_close_all: "relay_inv st \<Longrightarrow> relay_inv (close_all st cs)"
  by (induction cs arbitrary: st) (simp_all add: relay_inv_close)

lemma no_room_no_binding:
  assumes inv: "relay_inv st" and gone: "rooms st r = None"
  shows "sessionRoom st t \<noteq> Some r"
proof
  assume "sessionRoom st t = Some r"
  then have "t \<in> room_members st r" using inv by (simp add: relay_inv_bound)
  then show False using gone by (simp add: room_members_def)
qed

text \<open>
  C9. In a state the handlers can reach, closing a session removes it from the
  session-to-room map and from every room's session set, and leaves no room with an
  empty set; after all the sessions of a room have been closed, in any order and
  among any other closes, the room has no entry in \<open>rooms\<close> and no session is bound
  to it in \<open>sessionRoom\<close>.
\<close>

theorem relay_close_cleans_up:
  assumes inv: "relay_inv st"
  shows "sessionRoom (afterConnectionClosed st s) s = None \<and>
         (\<forall>r. s \<notin> room_members (afterConnectionClosed st s) r) \<and>
         (\<forall>r. rooms (afterConnectionClosed st s) r \<noteq> Some []) \<and>
         (\<forall>r xs cs. rooms st r = Some xs \<and> set xs \<subseteq> set cs \<longrightarrow>
             rooms (close_all st cs) r = None \<and>
             (\<forall>t. sessionRoom (close_all st cs) t \<noteq> Some r))"
proof -
  have a: "sessionRoom (afterConnectionClosed st s) s = None"
    by (simp add: close_sessionRoom)
  have b: "\<forall>r. s \<notin> room_members (afterConnectionClosed st s) r"
    using close_not_member [OF inv] by simp
  have c: "\<forall>r. rooms (afterConnectionClosed st s) r \<noteq> Some []"
    using relay_inv_no_empty_room [OF relay_inv_close [OF inv]] by simp
  have d: "\<forall>r xs cs. rooms st r = Some xs \<and> set xs \<subseteq> set cs \<longrightarrow>
             rooms (close_all st cs) r = None \<and>
             (\<forall>t. sessionRoom (close_all st cs) t \<noteq> Some r)"
  proof (intro allI impI)
    fix r xs cs
    assume h: "rooms st r = Some xs \<and> set xs \<subseteq> set cs"
    then have r: "rooms st r = Some xs" and sub: "set xs \<subseteq> set cs" by simp_all
    have gone: "rooms (close_all st cs) r = None"
      by (rule close_all_room_gone [OF inv r sub])
    have unbound: "\<forall>t. sessionRoom (close_all st cs) t \<noteq> Some r"
      using no_room_no_binding [OF relay_inv_close_all [OF inv] gone] by simp
    show "rooms (close_all st cs) r = None \<and>
          (\<forall>t. sessionRoom (close_all st cs) t \<noteq> Some r)"
      by (rule conjI [OF gone unbound])
  qed
  show ?thesis by (rule conjI [OF a conjI [OF b conjI [OF c d]]])
qed

text \<open>
  The theorem of C9 at a concrete run: sessions 1 and 2 of room A close.
\<close>
theorem relay_close_cleans_up_witness:
  "relay_inv two_in_A \<and> rooms two_in_A ''A'' = Some [1, 2] \<and>
   rooms (close_all two_in_A [2, 1]) ''A'' = None \<and>
   sessionRoom (close_all two_in_A [2, 1]) 1 \<noteq> Some ''A'' \<and>
   sessionRoom (close_all two_in_A [2, 1]) 2 \<noteq> Some ''A'' \<and>
   sessionRoom (afterConnectionClosed two_in_A 2) 2 = None \<and>
   rooms (afterConnectionClosed two_in_A 2) ''A'' = Some [1]"
proof -
  have r: "rooms two_in_A ''A'' = Some [1, 2]" by (simp add: two_in_A_rooms)
  have one: "rooms (afterConnectionClosed two_in_A 2) ''A'' = Some [1]"
    by (simp add: afterConnectionClosed_def two_in_A_rooms two_in_A_sessionRoom Let_def
        set_remove_def)
  note inst = relay_close_cleans_up [OF relay_inv_two_in_A, of 2]
  note all = inst [THEN conjunct2, THEN conjunct2, THEN conjunct2, rule_format,
      of "''A''" "[1, 2]" "[2, 1]"]
  have sub: "set [1, 2::session] \<subseteq> set [2, 1]" by simp
  have "rooms (close_all two_in_A [2, 1]) ''A'' = None \<and>
        (\<forall>t. sessionRoom (close_all two_in_A [2, 1]) t \<noteq> Some ''A'')"
    by (rule all [OF conjI [OF r sub]])
  then show ?thesis using inst r one relay_inv_two_in_A by simp
qed
section \<open>Facts about the client\<close>

lemma strict_eq_JStr: "strict_eq a (Some (JStr s)) \<longleftrightarrow> a = Some (JStr s)"
  by (cases "(a, Some (JStr s))" rule: strict_eq.cases) auto

lemma handle_without_user:
  assumes "\<not> truthy (jprop msg ''user'') \<or> \<not> truthy (guarded_prop (jprop msg ''user'') ''id'')"
  shows "handle e st msg = (st, if msg = JNull then Some TypeError else None)"
  using assms
  by (auto simp: handle_def guarded_prop_def split: option.splits)

text \<open>
  C10. A message whose \<open>user\<close> field is absent (or falsy), or whose user has no
  \<open>id\<close> (or a falsy one), leaves the whole state of the client as it was: no
  participant, no cursor and no layer changes, whatever else the message carries.
  \<open>handle\<close> returns, except for the message \<open>null\<close>, whose destructuring throws.
\<close>

theorem handle_drops_message_without_user_id:
  assumes "\<not> truthy (jprop msg ''user'') \<or> \<not> truthy (guarded_prop (jprop msg ''user'') ''id'')"
  shows "fst (handle e st msg) = st \<and>
         snd (handle e st msg) = (if msg = JNull then Some TypeError else None)"
  using handle_without_user [OF assms] by simp

text \<open>
  The theorem of C10 at two messages that carry a valid feature, one without a user and
  one whose user has no id; the same feature sent by Bob does change the store.
\<close>

theorem handle_drops_message_without_user_id_witness:
  "handle sample_env ann add_without_user = (ann, None) \<and>
   handle sample_env ann add_user_without_id = (ann, None) \<and>
   drawn (fst (handle sample_env ann (from_bob ''feature:add'' ''demo'' [(''feature'', line_f1)])))
     \<noteq> drawn ann"
proof -
  have a: "\<not> truthy (jprop add_without_user ''user'') \<or>
           \<not> truthy (guarded_prop (jprop add_without_user ''user'') ''id'')"
    by (simp add: add_without_user_def)
  have b: "\<not> truthy (jprop add_user_without_id ''user'') \<or>
           \<not> truthy (guarded_prop (jprop add_user_without_id ''user'') ''id'')"
    by (simp add: add_user_without_id_def guarded_prop_def)
  have c: "add_without_user \<noteq> JNull" "add_user_without_id \<noteq> JNull"
    by (simp_all add: add_without_user_def add_user_without_id_def)
  have d: "drawn (fst (handle sample_env ann (from_bob ''feature:add'' ''demo'' [(''feature'', line_f1)])))
     \<noteq> drawn ann"
    by code_simp
  show ?thesis
    using handle_drops_message_without_user_id [OF a, of sample_env ann]
      handle_drops_message_without_user_id [OF b, of sample_env ann] c d
    by (simp add: prod_eq_iff)
qed

lemma onmessage_ignored:
  assumes "(truthy (jprop msg ''room'') \<and> jprop msg ''room'' \<noteq> Some (JStr (local_room st))) \<or>
           (truthy (jprop msg ''user'') \<and>
            guarded_prop (jprop msg ''user'') ''id'' = Some (JStr (my_id st)))"
  shows "onmessage e st (Some msg) = (st, None)"
proof -
  have "msg \<noteq> JNull" using assms by auto
  then show ?thesis using assms by (auto simp: onmessage_def strict_eq_JStr)
qed

text \<open>
  C3 (as amended). A message delivered to the client transport is ignored, with the
  handler not run, no exception and no change of participants, cursors or feature
  store, when its \<open>room\<close> field is truthy (a non-empty string, say) and is not the
  locally bound room, or when it has a truthy \<open>user\<close> whose \<open>id\<close> is the local
  identity's id.
\<close>

theorem onmessage_ignores_other_room_and_own_echo:
  assumes "(truthy (jprop msg ''room'') \<and> jprop msg ''room'' \<noteq> Some (JStr (local_room st))) \<or>
           (truthy (jprop msg ''user'') \<and>
            guarded_prop (jprop msg ''user'') ''id'' = Some (JStr (my_id st)))"
  shows "fst (onmessage e st (Some msg)) = st \<and> snd (onmessage e st (Some msg)) = None"
  using onmessage_ignored [OF assms] by simp

text \<open>
  The theorem of C3 at a message from Bob for another room and at an echo of one of
  Ann's own messages.
\<close>

theorem onmessage_ignores_other_room_and_own_echo_witness:
  "onmessage sample_env ann (Some (from_bob ''hello'' ''other'' [])) = (ann, None) \<and>
   onmessage sample_env ann (Some own_echo) = (ann, None)"
proof -
  have a: "(truthy (jprop (from_bob ''hello'' ''other'' []) ''room'') \<and>
            jprop (from_bob ''hello'' ''other'' []) ''room'' \<noteq> Some (JStr (local_room ann))) \<or>
           (truthy (jprop (from_bob ''hello'' ''other'' []) ''user'') \<and>
            guarded_prop (jprop (from_bob ''hello'' ''other'' []) ''user'') ''id''
              = Some (JStr (my_id ann)))"
    by (simp add: from_bob_def ann_def)
  have b: "(truthy (jprop own_echo ''room'') \<and>
            jprop own_echo ''room'' \<noteq> Some (JStr (local_room ann))) \<or>
           (truthy (jprop own_echo ''user'') \<and>
            guarded_prop (jprop own_echo ''user'') ''id'' = Some (JStr (my_id ann)))"
    by (simp add: own_echo_def ann_def guarded_prop_def)
  show ?thesis
    using onmessage_ignores_other_room_and_own_echo [OF a, of sample_env]
      onmessage_ignores_other_room_and_own_echo [OF b, of sample_env]
    by (simp add: prod_eq_iff)
qed

text \<open>
  C3 as stated fails: a message whose \<open>room\<close> field is the empty string differs from
  the local room \<open>demo\<close>, yet it is handled, and Bob becomes a participant.
\<close>

theorem onmessage_handles_empty_room:
  "jprop (from_bob ''hello'' '''' []) ''room'' = Some (JStr '''') \<and>
   local_room ann = ''demo'' \<and>
   participants ann = [] \<and>
   participants (fst (onmessage sample_env ann (Some (from_bob ''hello'' '''' [])))) =
     [(JStr ''u2'', \<lparr> p_name = Some (JStr ''Bob''), p_color = Some (JStr ''red''),
                      p_cursor = None, p_lastView = None, p_self = False \<rparr>),
      (JStr ''u1'', \<lparr> p_name = Some (JStr ''Ann''), p_color = Some (JStr ''hsl(200 70% 55%)''),
                      p_cursor = None, p_lastView = None, p_self = True \<rparr>)]"
  by (simp add: onmessage_def from_bob_def bob_def ann_def handle_def handle_dispatch_def
      record_sender_def renderPresence_def guarded_prop_def Let_def)


lemma geoJSON_with_fst:
  "fst (geoJSON_with e cb st g) =
     st\<lparr> uuid_calls := fst (onEachFeature_calls cb (uuid_calls st) (fst (geoJSON e g))),
         drawn := drawn st @ fst (snd (onEachFeature_calls cb (uuid_calls st) (fst (geoJSON e g)))) \<rparr>"
  by (simp add: geoJSON_with_def split_beta)

lemma geoJSON_with_snd:
  "snd (geoJSON_with e cb st g) =
     (case snd (snd (onEachFeature_calls cb (uuid_calls st) (fst (geoJSON e g)))) of
        Some x \<Rightarrow> Some x
      | None \<Rightarrow> if snd (geoJSON e g) then Some LeafletError else None)"
  by (simp add: geoJSON_with_def split_beta)

lemma addFeatureFromRemote_frame:
  "outbox (fst (addFeatureFromRemote e st feat)) = outbox st"
  "undoStack (fst (addFeatureFromRemote e st feat)) = undoStack st"
  "redoStack (fst (addFeatureFromRemote e st feat)) = redoStack st"
  "isRemoteApplying (fst (addFeatureFromRemote e st feat)) = isRemoteApplying st"
  "isRestoring (fst (addFeatureFromRemote e st feat)) = isRestoring st"
  "participants (fst (addFeatureFromRemote e st feat)) = participants st"
  by (simp_all add: addFeatureFromRemote_def geoJSON_with_fst)

lemma removeFeatureById_frame:
  "outbox (removeFeatureById st i) = outbox st"
  "undoStack (removeFeatureById st i) = undoStack st"
  "redoStack (removeFeatureById st i) = redoStack st"
  "isRemoteApplying (removeFeatureById st i) = isRemoteApplying st"
  "isRestoring (removeFeatureById st i) = isRestoring st"
  "participants (removeFeatureById st i) = participants st"
  by (simp_all add: removeFeatureById_def split: option.splits)

lemma editFeatureFromRemote_cases:
  "editFeatureFromRemote e st feat = addFeatureFromRemote e st feat \<or>
   editFeatureFromRemote e st feat = (st, Some LeafletError) \<or>
   (\<exists>i l r. editFeatureFromRemote e st feat = (st\<lparr> drawn := (drawn st)[i := l] \<rparr>, r))"
  by (auto simp: editFeatureFromRemote_def Let_def split: option.splits prod.splits)

lemma editFeatureFromRemote_frame:
  "outbox (fst (editFeatureFromRemote e st feat)) = outbox st"
  "undoStack (fst (editFeatureFromRemote e st feat)) = undoStack st"
  "redoStack (fst (editFeatureFromRemote e st feat)) = redoStack st"
  "isRemoteApplying (fst (editFeatureFromRemote e st feat)) = isRemoteApplying st"
  "isRestoring (fst (editFeatureFromRemote e st feat)) = isRestoring st"
  "participants (fst (editFeatureFromRemote e st feat)) = participants st"
  using editFeatureFromRemote_cases [of e st feat]
  by (auto simp: addFeatureFromRemote_frame)

lemma renderPresence_frame:
  "outbox (fst (renderPresence st)) = outbox st"
  "undoStack (fst (renderPresence st)) = undoStack st"
  "redoStack (fst (renderPresence st)) = redoStack st"
  "isRemoteApplying (fst (renderPresence st)) = isRemoteApplying st"
  "isRestoring (fst (renderPresence st)) = isRestoring st"
  "drawn (fst (renderPresence st)) = drawn st"
  by (simp_all add: renderPresence_def Let_def)

lemma handle_dispatch_outbox:
  "outbox (fst (handle_dispatch e st msg uid p)) = outbox st"
  by (simp add: handle_dispatch_def Let_def split_beta addFeatureFromRemote_frame
      editFeatureFromRemote_frame removeFeatureById_frame renderPresence_frame
      split: option.splits)

lemma handle_dispatch_undoStack:
  "undoStack (fst (handle_dispatch e st msg uid p)) = undoStack st"
  by (simp add: handle_dispatch_def Let_def split_beta addFeatureFromRemote_frame
      editFeatureFromRemote_frame removeFeatureById_frame renderPresence_frame
      split: option.splits)

lemma handle_dispatch_redoStack:
  "redoStack (fst (handle_dispatch e st msg uid p)) = redoStack st"
  by (simp add: handle_dispatch_def Let_def split_beta addFeatureFromRemote_frame
      editFeatureFromRemote_frame removeFeatureById_frame renderPresence_frame
      split: option.splits)

lemma handle_dispatch_isRestoring:
  "isRestoring (fst (handle_dispatch e st msg uid p)) = isRestoring st"
  by (simp add: handle_dispatch_def Let_def split_beta addFeatureFromRemote_frame
      editFeatureFromRemote_frame removeFeatureById_frame renderPresence_frame
      split: option.splits)


lemma handle_dispatch_isRemoteApplying:
  "isRemoteApplying (fst (handle_dispatch e st msg uid p)) \<Longrightarrow> isRemoteApplying st"
  by (simp add: handle_dispatch_def Let_def split_beta addFeatureFromRemote_frame
      editFeatureFromRemote_frame removeFeatureById_frame renderPresence_frame
      split: option.splits if_splits)

lemma handle_cases:
  "handle e st msg = (st, Some TypeError) \<or> handle e st msg = (st, None) \<or>
   (\<exists>uid p. handle e st msg = handle_dispatch e st msg uid p)"
  by (auto simp: handle_def split: option.splits)

lemma handle_frame:
  "outbox (fst (handle e st msg)) = outbox st"
  "undoStack (fst (handle e st msg)) = undoStack st"
  "redoStack (fst (handle e st msg)) = redoStack st"
  "isRestoring (fst (handle e st msg)) = isRestoring st"
  using handle_cases [of e st msg]
  by (auto simp: handle_dispatch_outbox handle_dispatch_undoStack handle_dispatch_redoStack
      handle_dispatch_isRestoring)

lemma handle_isRemoteApplying:
  "isRemoteApplying (fst (handle e st msg)) \<Longrightarrow> isRemoteApplying st"
  using handle_cases [of e st msg]
  by (auto dest: handle_dispatch_isRemoteApplying)

lemma send_functions_suppressed:
  assumes "isRemoteApplying st"
  shows "sendAdd e st i = (st, None)" "sendEdit e st i = (st, None)" "sendRemove e st i = (st, None)"
  using assms by (simp_all add: sendAdd_def sendEdit_def sendRemove_def)

lemma truthy_Some: "truthy a \<Longrightarrow> \<exists>v. a = Some v"
  by (cases a) auto

lemma remote_operation_clears_flag:
  assumes "remote_operation msg"
  shows "\<not> isRemoteApplying (fst (handle e st msg))"
proof -
  from assms have tu: "truthy (jprop msg ''user'')"
    and tid: "truthy (guarded_prop (jprop msg ''user'') ''id'')"
    by (simp_all add: remote_operation_def has_sender_def)
  from tu obtain u where u: "jprop msg ''user'' = Some u" "truthy (Some u)"
    by (cases "jprop msg ''user''") auto
  from tid u have "truthy (jprop u ''id'')" by (simp add: guarded_prop_def)
  then obtain uid where uid: "jprop u ''id'' = Some uid" "truthy (Some uid)"
    by (cases "jprop u ''id''") auto
  have nn: "msg \<noteq> JNull" using u by auto
  have h: "handle e st msg = handle_dispatch e st msg uid (record_sender st u uid)"
    using u uid nn by (simp add: handle_def)
  from assms have ty:
    "(jprop msg ''type'' = Some (JStr ''feature:add'') \<and> truthy (jprop msg ''feature'')) \<or>
     (jprop msg ''type'' = Some (JStr ''feature:edit'') \<and> truthy (jprop msg ''feature'')) \<or>
     (jprop msg ''type'' = Some (JStr ''feature:remove'') \<and> truthy (jprop msg ''id''))"
    by (simp add: remote_operation_def has_sender_def)
  then consider
      (add) "jprop msg ''type'' = Some (JStr ''feature:add'')" "truthy (jprop msg ''feature'')"
    | (edit) "jprop msg ''type'' = Some (JStr ''feature:edit'')" "truthy (jprop msg ''feature'')"
    | (remove) "jprop msg ''type'' = Some (JStr ''feature:remove'')" "truthy (jprop msg ''id'')"
    by blast
  then show ?thesis
  proof cases
    case add
    then obtain v where "jprop msg ''feature'' = Some v" using truthy_Some by blast
    then show ?thesis using add unfolding h
      by (simp add: handle_dispatch_def Let_def split_beta removeFeatureById_frame)
  next
    case edit
    then obtain v where "jprop msg ''feature'' = Some v" using truthy_Some by blast
    then show ?thesis using edit unfolding h
      by (simp add: handle_dispatch_def Let_def split_beta removeFeatureById_frame)
  next
    case remove
    then obtain v where "jprop msg ''id'' = Some v" using truthy_Some by blast
    then show ?thesis using remove unfolding h
      by (simp add: handle_dispatch_def Let_def split_beta removeFeatureById_frame)
  qed
qed

lemma loadState_fst:
  "fst (loadState e st g) =
     st\<lparr> isRestoring := False,
         uuid_calls := fst (onEachFeature_calls (restored_layer e) (uuid_calls st) (fst (geoJSON e g))),
         drawn := replay_layers e (uuid_calls st) (fst (geoJSON e g)) \<rparr>"
  by (simp add: loadState_def Let_def split_beta restoreFromGeoJSON_def geoJSON_with_fst
      replay_layers_def)

lemma loadState_snd:
  "snd (loadState e st g) =
     (case replay_error e (uuid_calls st) (fst (geoJSON e g)) of
        Some x \<Rightarrow> Some x
      | None \<Rightarrow> if snd (geoJSON e g) then Some LeafletError else None)"
  by (simp add: loadState_def Let_def split_beta restoreFromGeoJSON_def geoJSON_with_snd
      replay_error_def)

lemma loadState_frame:
  "\<not> isRestoring (fst (loadState e st g))"
  "outbox (fst (loadState e st g)) = outbox st"
  "undoStack (fst (loadState e st g)) = undoStack st"
  "redoStack (fst (loadState e st g)) = redoStack st"
  "isRemoteApplying (fst (loadState e st g)) = isRemoteApplying st"
  "participants (fst (loadState e st g)) = participants st"
  by (simp_all add: loadState_fst)

lemma loadState_drawn:
  "drawn (fst (loadState e st g)) = replay_layers e (uuid_calls st) (fst (geoJSON e g))"
  by (simp add: loadState_fst)

lemma undo_isRestoring: "isRestoring (fst (undo e st)) \<Longrightarrow> isRestoring st"
  by (simp add: undo_def Let_def loadState_frame split: if_splits)

lemma redo_isRestoring: "isRestoring (fst (redo e st)) \<Longrightarrow> isRestoring st"
  by (simp add: redo_def Let_def loadState_frame split: if_splits)

text \<open>
  C4. Handling a message, and so applying a remote \<open>feature:add\<close>, \<open>feature:edit\<close>
  or \<open>feature:remove\<close>, hands nothing to \<open>ws.send\<close> and pushes nothing on the history:
  the outbox and both stacks are as before, whether the application returned or threw.
  And while \<open>isRemoteApplying\<close> is set, \<open>sendAdd\<close>, \<open>sendEdit\<close> and \<open>sendRemove\<close>
  return at once without a change of state.
\<close>

theorem remote_application_sends_and_commits_nothing:
  "outbox (fst (handle e st msg)) = outbox st \<and>
   undoStack (fst (handle e st msg)) = undoStack st \<and>
   redoStack (fst (handle e st msg)) = redoStack st \<and>
   (isRemoteApplying st \<longrightarrow>
      sendAdd e st i = (st, None) \<and> sendEdit e st i = (st, None) \<and>
      sendRemove e st i = (st, None))"
  by (simp add: handle_frame send_functions_suppressed)

lemma ann_with_line_drawn: "length (drawn ann_with_line) = 1"
  by code_simp

text \<open>
  The theorem of C4 at Bob's \<open>feature:add\<close>: Ann's store gets the line, her outbox
  stays empty and her undo stack keeps its one snapshot; with the flag set, \<open>sendAdd\<close>
  of that line does nothing.
\<close>

theorem remote_application_sends_and_commits_nothing_witness:
  "remote_operation (from_bob ''feature:add'' ''demo'' [(''feature'', line_f1)]) \<and>
   length (drawn ann_with_line) = 1 \<and> drawn ann_with_history = [] \<and>
   outbox ann_with_line = [] \<and>
   undoStack ann_with_line = undoStack ann_with_history \<and>
   redoStack ann_with_line = [] \<and>
   sendAdd sample_env (ann_with_line\<lparr> isRemoteApplying := True \<rparr>) 0
     = (ann_with_line\<lparr> isRemoteApplying := True \<rparr>, None)"
proof -
  note inst1 = remote_application_sends_and_commits_nothing
    [of sample_env ann_with_history "from_bob ''feature:add'' ''demo'' [(''feature'', line_f1)]" 0]
  note inst2 = remote_application_sends_and_commits_nothing
    [of sample_env "ann_with_line\<lparr> isRemoteApplying := True \<rparr>" JNull 0]
  have r: "remote_operation (from_bob ''feature:add'' ''demo'' [(''feature'', line_f1)])"
    by (simp add: remote_operation_def has_sender_def from_bob_def bob_def guarded_prop_def line_f1_def)
  have e: "outbox ann_with_history = []" "redoStack ann_with_history = []"
    "drawn ann_with_history = []"
    by (simp_all add: ann_with_history_def ann_def)
  show ?thesis using inst1 inst2 r e ann_with_line_drawn
    by (simp add: ann_with_line_def [symmetric])
qed

text \<open>
  C5. \<open>isRemoteApplying\<close> is clear after every message that applies a remote feature
  operation, and no message leaves it set that did not find it set; \<open>isRestoring\<close> is
  clear after every \<open>loadState\<close>, and \<open>undo\<close> and \<open>redo\<close> never leave it set if they
  did not find it set. This holds on every exit path: the statement is about the state
  left behind, whether the handler returned or threw.
\<close>

theorem flags_cleared_on_every_exit:
  "(remote_operation msg \<longrightarrow> \<not> isRemoteApplying (fst (handle e st msg))) \<and>
   (isRemoteApplying (fst (handle e st msg)) \<longrightarrow> isRemoteApplying st) \<and>
   \<not> isRestoring (fst (loadState e st g)) \<and>
   (isRestoring (fst (undo e st)) \<longrightarrow> isRestoring st) \<and>
   (isRestoring (fst (redo e st)) \<longrightarrow> isRestoring st)"
  using remote_operation_clears_flag handle_isRemoteApplying loadState_frame(1)
    undo_isRestoring redo_isRestoring
  by blast

lemma corrupt_snapshot_walk:
  "geoJSON sample_env corrupt_snapshot = ([(line_f1, Polyline, JArr [JArr [JNum 0, JNum 0], JArr [JNum 1, JNum 1]])], True)"
  by code_simp

lemma bad_add_throws: "snd (handle sample_env ann bad_add) = Some LeafletError"
  by code_simp

text \<open>
  The theorem of C5 on two paths that throw: Bob's \<open>feature:add\<close> of a feature that
  Leaflet rejects, and the restore of a snapshot whose second feature Leaflet rejects.
\<close>

theorem flags_cleared_on_every_exit_witness:
  "remote_operation bad_add \<and>
   snd (handle sample_env ann bad_add) = Some LeafletError \<and>
   \<not> isRemoteApplying (fst (handle sample_env ann bad_add)) \<and>
   snd (loadState sample_env ann corrupt_snapshot) = Some LeafletError \<and>
   \<not> isRestoring (fst (loadState sample_env ann corrupt_snapshot))"
proof -
  note inst = flags_cleared_on_every_exit [of bad_add sample_env ann corrupt_snapshot]
  have r: "remote_operation bad_add"
    by (simp add: remote_operation_def has_sender_def bad_add_def from_bob_def bob_def guarded_prop_def
        circle_f2_def)
  have l: "snd (loadState sample_env ann corrupt_snapshot) = Some LeafletError"
    by code_simp
  show ?thesis using inst r l bad_add_throws by simp
qed

text \<open>
  C8 (as amended). Whatever the snapshot, \<open>loadState\<close> leaves \<open>isRestoring\<close> clear,
  and the outbox, the participants and both history stacks as it found them. When the
  restore fails, the exception is not caught: it escapes \<open>loadState\<close>; it is that of
  the callback that threw, and Leaflet's own when Leaflet rejects the snapshot and no
  callback threw before. The store is not put back: it holds the layers rebuilt from
  the snapshot before the failure and nothing else, so what it held before the restore
  is gone, whatever that was.
\<close>

theorem failed_restore_escapes_and_replaces_store:
  "\<not> isRestoring (fst (loadState e st g)) \<and>
   outbox (fst (loadState e st g)) = outbox st \<and>
   participants (fst (loadState e st g)) = participants st \<and>
   undoStack (fst (loadState e st g)) = undoStack st \<and>
   redoStack (fst (loadState e st g)) = redoStack st \<and>
   (snd (geoJSON e g) \<longrightarrow>
      snd (loadState e st g) =
        Some (case replay_error e (uuid_calls st) (fst (geoJSON e g)) of
                Some x \<Rightarrow> x | None \<Rightarrow> LeafletError) \<and>
      drawn (fst (loadState e st g)) = replay_layers e (uuid_calls st) (fst (geoJSON e g)) \<and>
      (\<forall>d. drawn (fst (loadState e (st\<lparr> drawn := d \<rparr>) g)) = drawn (fst (loadState e st g)))) \<and>
   (snd (loadState e st g) \<noteq> None \<longrightarrow>
      drawn (fst (loadState e st g)) = replay_layers e (uuid_calls st) (fst (geoJSON e g)) \<and>
      (\<forall>d. drawn (fst (loadState e (st\<lparr> drawn := d \<rparr>) g)) = drawn (fst (loadState e st g))))"
  by (simp add: loadState_frame loadState_snd loadState_drawn split: option.splits)

text \<open>
  C8 as stated fails: Ann's store holds two layers; restoring a snapshot whose second
  feature Leaflet rejects throws out of \<open>loadState\<close> and leaves one layer, the one
  rebuilt from the snapshot's first feature.
\<close>

theorem failed_restore_not_rolled_back:
  "length (drawn ann_with_two) = 2 \<and>
   snd (loadState sample_env ann_with_two corrupt_snapshot) = Some LeafletError \<and>
   length (drawn (fst (loadState sample_env ann_with_two corrupt_snapshot))) = 1"
  by code_simp

text \<open>
  The theorem of C8 at the same failing restore: the flag is clear, the exception
  escapes, and the store after it is the same whatever the store held before.
\<close>

theorem failed_restore_escapes_and_replaces_store_witness:
  "snd (geoJSON sample_env corrupt_snapshot) \<and>
   \<not> isRestoring (fst (loadState sample_env ann_with_two corrupt_snapshot)) \<and>
   snd (loadState sample_env ann_with_two corrupt_snapshot) = Some LeafletError \<and>
   drawn (fst (loadState sample_env (ann_with_two\<lparr> drawn := [] \<rparr>) corrupt_snapshot)) =
     drawn (fst (loadState sample_env ann_with_two corrupt_snapshot))"
proof -
  note inst = failed_restore_escapes_and_replaces_store [of sample_env ann_with_two corrupt_snapshot]
  have t: "snd (geoJSON sample_env corrupt_snapshot)" by (simp add: corrupt_snapshot_walk)
  have r: "replay_error sample_env (uuid_calls ann_with_two) (fst (geoJSON sample_env corrupt_snapshot)) = None"
    by code_simp
  from inst t have
    "snd (loadState sample_env ann_with_two corrupt_snapshot) =
        Some (case replay_error sample_env (uuid_calls ann_with_two) (fst (geoJSON sample_env corrupt_snapshot)) of
                Some x \<Rightarrow> x | None \<Rightarrow> LeafletError) \<and>
     (\<forall>d. drawn (fst (loadState sample_env (ann_with_two\<lparr> drawn := d \<rparr>) corrupt_snapshot)) =
          drawn (fst (loadState sample_env ann_with_two corrupt_snapshot)))"
    by blast
  then show ?thesis using inst t r by simp
qed

lemma eachLayer_find_append:
  "eachLayer_find (xs @ [l]) ident i found =
     (if strict_eq (opt_id l) (Some ident) then Some (i + length xs)
      else eachLayer_find xs ident i found)"
  by (induction xs arbitrary: i found) auto

lemma eachLayer_find_None:
  "eachLayer_find ls ident i found = None \<longleftrightarrow>
     found = None \<and> (\<forall>l\<in>set ls. \<not> strict_eq (opt_id l) (Some ident))"
  by (induction ls arbitrary: i found) auto

lemma findLayerById_None:
  "findLayerById st (JStr i) = None \<longleftrightarrow> (\<forall>l\<in>set (drawn st). opt_id l \<noteq> Some (JStr i))"
  by (simp add: findLayerById_def eachLayer_find_None strict_eq_JStr)

lemma remote_style_frame:
  "opt_id (remote_style p l) = opt_id l"
  "kind (remote_style p l) = kind l"
  "latlngs (remote_style p l) = latlngs l"
  "tooltip (remote_style p l) = tooltip l"
  "popup (remote_style p l) = popup l"
  "feature (remote_style p l) = feature l"
  by (simp_all add: remote_style_def Let_def)

lemma built_layer_shape:
  "kind (built_layer e (feat, k, ll)) = k"
  "latlngs (built_layer e (feat, k, ll)) = ll"
  "tooltip (built_layer e (feat, k, ll)) = None"
  "popup (built_layer e (feat, k, ll)) = None"
  "opt_id (built_layer e (feat, k, ll)) = None"
  by (simp_all add: built_layer_def pointToLayer_def new_layer_def setMarkerIcon_def Let_def
      split: option.splits prod.splits)

lemma ensureLayerId_frame:
  "kind (snd (ensureLayerId e n l)) = kind l"
  "latlngs (snd (ensureLayerId e n l)) = latlngs l"
  "tooltip (snd (ensureLayerId e n l)) = tooltip l"
  "popup (snd (ensureLayerId e n l)) = popup l"
  by (simp_all add: ensureLayerId_def)

lemma bindTooltip_frame:
  "opt_id (fst (bindTooltip e l c)) = opt_id l"
  "kind (fst (bindTooltip e l c)) = kind l"
  "tooltip (fst (bindTooltip e l c)) = c"
  "popup (fst (bindTooltip e l c)) = popup l"
  by (simp_all add: bindTooltip_def)

lemma props_of_object:
  "jprop feat ''properties'' = Some (JObj kvs) \<Longrightarrow> props_of feat = JObj kvs"
  by (simp add: props_of_def js_or_def)

lemma jprop_Some_object: "jprop p k = Some v \<Longrightarrow> \<exists>kvs. p = JObj kvs"
  by (cases p) auto

lemma remote_layer_opt_id:
  assumes "jprop (props_of (fst leaf)) ''_id'' = Some v" "truthy (Some v)"
  shows "opt_id (fst (snd (remote_layer e n leaf))) = Some v"
  using assms
  by (simp add: remote_layer_def Let_def split_beta remote_style_frame bindTooltip_frame js_or_def)

lemma remote_layer_error:
  "snd (snd (remote_layer e n (feat, k, ll))) =
     (if \<not> truthy (jprop (props_of feat) ''label'') then None
      else if \<not> tooltipOpens e k ll then Some LeafletError
      else if \<not> is_string (jprop (props_of feat) ''label'') then Some TypeError
      else None)"
  by (simp add: remote_layer_def Let_def split_beta bindTooltip_def remote_style_frame
      ensureLayerId_frame built_layer_shape)

lemma edit_unknown_is_add:
  assumes props: "jprop feat ''properties'' = Some p"
    and ident: "jprop p ''_id'' = Some (JStr i)" "i \<noteq> []"
    and unknown: "findLayerById st (JStr i) = None"
  shows "editFeatureFromRemote e st feat = addFeatureFromRemote e st feat"
proof -
  obtain kvs where p: "p = JObj kvs" using ident(1) jprop_Some_object by blast
  have "guarded_prop (jprop feat ''properties'') ''_id'' = Some (JStr i)"
    using props ident p by (simp add: guarded_prop_def)
  then show ?thesis using ident unknown by (simp add: editFeatureFromRemote_def)
qed

lemma calls_single:
  "fst (snd (onEachFeature_calls cb n [leaf])) = [fst (snd (cb n leaf))]"
  "snd (snd (onEachFeature_calls cb n [leaf])) = snd (snd (cb n leaf))"
  by (cases "cb n leaf"; cases "snd (snd (cb n leaf))"; simp)+

lemma add_single_leaf:
  assumes props: "jprop feat ''properties'' = Some p"
    and ident: "jprop p ''_id'' = Some (JStr i)" "i \<noteq> []"
    and leaf: "geoJSON e feat = ([(feat, k, ll)], False)"
  shows "drawn (fst (addFeatureFromRemote e st feat)) =
           drawn st @ [fst (snd (remote_layer e (uuid_calls st) (feat, k, ll)))]"
    and "opt_id (fst (snd (remote_layer e (uuid_calls st) (feat, k, ll)))) = Some (JStr i)"
    and "findLayerById (fst (addFeatureFromRemote e st feat)) (JStr i) = Some (length (drawn st))"
    and "snd (addFeatureFromRemote e st feat) =
           (if \<not> truthy (jprop p ''label'') then None
            else if \<not> tooltipOpens e k ll then Some LeafletError
            else if \<not> is_string (jprop p ''label'') then Some TypeError
            else None)"
proof -
  obtain kvs where p: "p = JObj kvs" using ident(1) jprop_Some_object by blast
  have po: "props_of feat = p" using props p by (simp add: props_of_object)
  show d: "drawn (fst (addFeatureFromRemote e st feat)) =
           drawn st @ [fst (snd (remote_layer e (uuid_calls st) (feat, k, ll)))]"
    by (simp add: addFeatureFromRemote_def geoJSON_with_fst leaf calls_single
        del: onEachFeature_calls.simps)
  show id: "opt_id (fst (snd (remote_layer e (uuid_calls st) (feat, k, ll)))) = Some (JStr i)"
    by (rule remote_layer_opt_id) (use po ident in simp_all)
  show "findLayerById (fst (addFeatureFromRemote e st feat)) (JStr i) = Some (length (drawn st))"
    by (simp add: findLayerById_def d eachLayer_find_append id)
  show "snd (addFeatureFromRemote e st feat) =
           (if \<not> truthy (jprop p ''label'') then None
            else if \<not> tooltipOpens e k ll then Some LeafletError
            else if \<not> is_string (jprop p ''label'') then Some TypeError
            else None)"
    by (simp add: addFeatureFromRemote_def geoJSON_with_snd leaf calls_single remote_layer_error po
        del: onEachFeature_calls.simps)
qed

lemma add_no_leaf:
  assumes "fst (geoJSON e feat) = []"
  shows "drawn (fst (addFeatureFromRemote e st feat)) = drawn st"
    and "snd (addFeatureFromRemote e st feat) =
           (if snd (geoJSON e feat) then Some LeafletError else None)"
  using assms by (simp_all add: addFeatureFromRemote_def geoJSON_with_fst geoJSON_with_snd)

lemma add_depends_on_store:
  assumes "drawn st' = drawn st" "uuid_calls st' = uuid_calls st"
  shows "drawn (fst (addFeatureFromRemote e st' feat)) = drawn (fst (addFeatureFromRemote e st feat))"
    and "snd (addFeatureFromRemote e st' feat) = snd (addFeatureFromRemote e st feat)"
  using assms by (simp_all add: addFeatureFromRemote_def geoJSON_with_fst geoJSON_with_snd)

lemma has_sender_handle:
  assumes "has_sender msg"
  shows "\<exists>u uid. handle e st msg = handle_dispatch e st msg uid (record_sender st u uid)"
proof -
  from assms have tu: "truthy (jprop msg ''user'')"
    and tid: "truthy (guarded_prop (jprop msg ''user'') ''id'')"
    by (simp_all add: has_sender_def)
  from tu obtain u where u: "jprop msg ''user'' = Some u" "truthy (Some u)"
    by (cases "jprop msg ''user''") auto
  from tid u have "truthy (jprop u ''id'')" by (simp add: guarded_prop_def)
  then obtain uid where uid: "jprop u ''id'' = Some uid" "truthy (Some uid)"
    by (cases "jprop u ''id''") auto
  have nn: "msg \<noteq> JNull" using u by auto
  have "handle e st msg = handle_dispatch e st msg uid (record_sender st u uid)"
    using u uid nn by (simp add: handle_def)
  then show ?thesis by blast
qed

lemma dispatch_edit:
  assumes "jprop msg ''type'' = Some (JStr ''feature:edit'')" "jprop msg ''feature'' = Some feat"
    "truthy (Some feat)"
  shows "handle_dispatch e st msg uid p =
           (fst (editFeatureFromRemote e
                   (st\<lparr> participants := participants_set (participants st) uid p,
                        isRemoteApplying := True \<rparr>) feat)\<lparr> isRemoteApplying := False \<rparr>,
            snd (editFeatureFromRemote e
                   (st\<lparr> participants := participants_set (participants st) uid p,
                        isRemoteApplying := True \<rparr>) feat))"
  using assms by (simp add: handle_dispatch_def Let_def split_beta)

lemma dispatch_remove:
  assumes "jprop msg ''type'' = Some (JStr ''feature:remove'')" "jprop msg ''id'' = Some ident"
    "truthy (Some ident)"
  shows "handle_dispatch e st msg uid p =
           ((removeFeatureById
               (st\<lparr> participants := participants_set (participants st) uid p,
                    isRemoteApplying := True \<rparr>) ident)\<lparr> isRemoteApplying := False \<rparr>,
            None)"
  using assms by (simp add: handle_dispatch_def Let_def split_beta)


lemma handle_edit_unknown:
  assumes sender: "has_sender msg"
    and ty: "jprop msg ''type'' = Some (JStr ''feature:edit'')"
    and feat: "jprop msg ''feature'' = Some feat"
    and props: "jprop feat ''properties'' = Some p"
    and ident: "jprop p ''_id'' = Some (JStr i)" "i \<noteq> []"
    and unknown: "findLayerById st (JStr i) = None"
  shows "drawn (fst (handle e st msg)) = drawn (fst (addFeatureFromRemote e st feat)) \<and>
         snd (handle e st msg) = snd (addFeatureFromRemote e st feat)"
proof -
  obtain u uid where h: "handle e st msg = handle_dispatch e st msg uid (record_sender st u uid)"
    using has_sender_handle [OF sender] by blast
  let ?st1 = "st\<lparr> participants := participants_set (participants st) uid (record_sender st u uid),
                   isRemoteApplying := True \<rparr>"
  obtain kvs where "feat = JObj kvs" using props jprop_Some_object by blast
  then have tf: "truthy (Some feat)" by simp
  have unknown1: "findLayerById ?st1 (JStr i) = None"
    using unknown by (simp add: findLayerById_def)
  have ea: "editFeatureFromRemote e ?st1 feat = addFeatureFromRemote e ?st1 feat"
    by (rule edit_unknown_is_add [OF props ident unknown1])
  have d: "handle e st msg =
             (fst (addFeatureFromRemote e ?st1 feat)\<lparr> isRemoteApplying := False \<rparr>,
              snd (addFeatureFromRemote e ?st1 feat))"
    unfolding h dispatch_edit [OF ty feat tf] ea by simp
  have s: "drawn (fst (addFeatureFromRemote e ?st1 feat)) = drawn (fst (addFeatureFromRemote e st feat))"
    "snd (addFeatureFromRemote e ?st1 feat) = snd (addFeatureFromRemote e st feat)"
    by (rule add_depends_on_store; simp)+
  show ?thesis unfolding d using s by simp
qed

lemma handle_remove_unknown:
  assumes sender: "has_sender msg"
    and ty: "jprop msg ''type'' = Some (JStr ''feature:remove'')"
    and ident: "jprop msg ''id'' = Some (JStr i)" "i \<noteq> []"
    and unknown: "findLayerById st (JStr i) = None"
  shows "snd (handle e st msg) = None \<and> drawn (fst (handle e st msg)) = drawn st"
proof -
  obtain u uid where h: "handle e st msg = handle_dispatch e st msg uid (record_sender st u uid)"
    using has_sender_handle [OF sender] by blast
  have ti: "truthy (Some (JStr i))" using ident by simp
  let ?st1 = "st\<lparr> participants := participants_set (participants st) uid (record_sender st u uid),
                   isRemoteApplying := True \<rparr>"
  have unknown1: "findLayerById ?st1 (JStr i) = None"
    using unknown by (simp add: findLayerById_def)
  then have "removeFeatureById ?st1 (JStr i) = ?st1" by (simp add: removeFeatureById_def)
  then show ?thesis unfolding h dispatch_remove [OF ty ident(1) ti] by simp
qed

text \<open>
  C6 (as amended). Let no layer of the store have the identifier \<open>i\<close>, a non-empty
  string as identifiers on the wire are; the lookup then finds nothing. A feature with
  that identifier is edited into the store exactly as it would be added, with the same
  state left behind and the same exception, if any. When Leaflet builds one layer from
  the feature, the store afterwards ends with a new layer that has the identifier, and
  the lookup finds it; the edit raises no exception when the feature has no label, or
  a label that is a string and opens, and else the exception of the tooltip escapes
  (a \<open>TypeError\<close> when the label is no string), the layer being in the store
  all the same. When Leaflet builds no layer from the feature, the store is as before,
  and Leaflet's exception escapes when it rejects the feature. Handling a
  \<open>feature:edit\<close> message that carries the feature leaves the store, and raises the
  exception, that adding the feature does. Removing \<open>i\<close> leaves the state as it is,
  and handling a \<open>feature:remove\<close> message for \<open>i\<close> returns without an exception and
  leaves the store as it is.
\<close>

theorem unknown_identifier_edit_adds_remove_is_noop:
  assumes props: "jprop feat ''properties'' = Some p"
    and ident: "jprop p ''_id'' = Some (JStr i)" "i \<noteq> []"
    and unknown: "\<forall>l\<in>set (drawn st). opt_id l \<noteq> Some (JStr i)"
  shows "findLayerById st (JStr i) = None \<and>
         editFeatureFromRemote e st feat = addFeatureFromRemote e st feat \<and>
         (geoJSON e feat = ([(feat, k, ll)], False) \<longrightarrow>
            (\<exists>l. drawn (fst (editFeatureFromRemote e st feat)) = drawn st @ [l] \<and>
                 opt_id l = Some (JStr i)) \<and>
            findLayerById (fst (editFeatureFromRemote e st feat)) (JStr i)
              = Some (length (drawn st)) \<and>
            snd (editFeatureFromRemote e st feat) =
              (if \<not> truthy (jprop p ''label'') then None
               else if \<not> tooltipOpens e k ll then Some LeafletError
               else if \<not> is_string (jprop p ''label'') then Some TypeError
               else None)) \<and>
         (fst (geoJSON e feat) = [] \<longrightarrow>
            drawn (fst (editFeatureFromRemote e st feat)) = drawn st \<and>
            snd (editFeatureFromRemote e st feat) =
              (if snd (geoJSON e feat) then Some LeafletError else None)) \<and>
         (has_sender msg \<and> jprop msg ''type'' = Some (JStr ''feature:edit'') \<and>
          jprop msg ''feature'' = Some feat \<longrightarrow>
            drawn (fst (handle e st msg)) = drawn (fst (addFeatureFromRemote e st feat)) \<and>
            snd (handle e st msg) = snd (addFeatureFromRemote e st feat)) \<and>
         removeFeatureById st (JStr i) = st \<and>
         (has_sender msg' \<and> jprop msg' ''type'' = Some (JStr ''feature:remove'') \<and>
          jprop msg' ''id'' = Some (JStr i) \<longrightarrow>
            snd (handle e st msg') = None \<and> drawn (fst (handle e st msg')) = drawn st)"
proof -
  have u: "findLayerById st (JStr i) = None"
    using unknown by (simp add: findLayerById_None)
  have a: "editFeatureFromRemote e st feat = addFeatureFromRemote e st feat"
    by (rule edit_unknown_is_add [OF props ident u])
  have b: "geoJSON e feat = ([(feat, k, ll)], False) \<longrightarrow>
            (\<exists>l. drawn (fst (editFeatureFromRemote e st feat)) = drawn st @ [l] \<and>
                 opt_id l = Some (JStr i)) \<and>
            findLayerById (fst (editFeatureFromRemote e st feat)) (JStr i)
              = Some (length (drawn st)) \<and>
            snd (editFeatureFromRemote e st feat) =
              (if \<not> truthy (jprop p ''label'') then None
               else if \<not> tooltipOpens e k ll then Some LeafletError
               else if \<not> is_string (jprop p ''label'') then Some TypeError
               else None)"
  proof
    assume leaf: "geoJSON e feat = ([(feat, k, ll)], False)"
    note add = add_single_leaf [OF props ident leaf, of st]
    have "\<exists>l. drawn (fst (addFeatureFromRemote e st feat)) = drawn st @ [l] \<and>
              opt_id l = Some (JStr i)"
      using add(1) add(2) by blast
    then show "(\<exists>l. drawn (fst (editFeatureFromRemote e st feat)) = drawn st @ [l] \<and>
                    opt_id l = Some (JStr i)) \<and>
               findLayerById (fst (editFeatureFromRemote e st feat)) (JStr i)
                 = Some (length (drawn st)) \<and>
               snd (editFeatureFromRemote e st feat) =
                 (if \<not> truthy (jprop p ''label'') then None
                  else if \<not> tooltipOpens e k ll then Some LeafletError
                  else if \<not> is_string (jprop p ''label'') then Some TypeError
                  else None)"
      unfolding a using add(3) add(4) by simp
  qed
  have c: "fst (geoJSON e feat) = [] \<longrightarrow>
            drawn (fst (editFeatureFromRemote e st feat)) = drawn st \<and>
            snd (editFeatureFromRemote e st feat) =
              (if snd (geoJSON e feat) then Some LeafletError else None)"
    unfolding a using add_no_leaf [of e feat st] by simp
  have d: "has_sender msg \<and> jprop msg ''type'' = Some (JStr ''feature:edit'') \<and>
          jprop msg ''feature'' = Some feat \<longrightarrow>
            drawn (fst (handle e st msg)) = drawn (fst (addFeatureFromRemote e st feat)) \<and>
            snd (handle e st msg) = snd (addFeatureFromRemote e st feat)"
    using handle_edit_unknown [OF _ _ _ props ident u] by blast
  have r: "removeFeatureById st (JStr i) = st"
    using u by (simp add: removeFeatureById_def)
  have f: "has_sender msg' \<and> jprop msg' ''type'' = Some (JStr ''feature:remove'') \<and>
          jprop msg' ''id'' = Some (JStr i) \<longrightarrow>
            snd (handle e st msg') = None \<and> drawn (fst (handle e st msg')) = drawn st"
    using handle_remove_unknown [OF _ _ _ ident(2) u] by blast
  show ?thesis
    by (rule conjI [OF u conjI [OF a conjI [OF b conjI [OF c conjI [OF d conjI [OF r f]]]]]])
qed

lemma point_accepted:
  "geoJSON sample_env point_f3 = ([(point_f3, Marker, JArr [JNum 1, JNum 2])], False)"
  by code_simp

text \<open>
  C6 as stated fails. Ann's store holds Bob's line \<open>f_1\<close> and nothing else. Bob's
  \<open>feature:edit\<close> of a feature with the unknown identifier \<open>f_2\<close> that Leaflet
  rejects throws out of the handler, and the store holds the line alone afterwards.
  His \<open>feature:edit\<close> of a line with the unknown identifier \<open>f_9\<close> whose label is the
  number 5 throws a \<open>TypeError\<close> out of the handler, with the new line in the store.
\<close>

theorem unknown_identifier_edit_can_throw:
  "map opt_id (drawn ann_with_line) = [Some (JStr ''f_1'')] \<and>
   snd (handle sample_env ann_with_line
          (from_bob ''feature:edit'' ''demo'' [(''feature'', circle_f2)])) = Some LeafletError \<and>
   map opt_id (drawn (fst (handle sample_env ann_with_line
                             (from_bob ''feature:edit'' ''demo'' [(''feature'', circle_f2)]))))
     = [Some (JStr ''f_1'')] \<and>
   snd (handle sample_env ann_with_line
          (from_bob ''feature:edit'' ''demo'' [(''feature'', line_f9)])) = Some TypeError \<and>
   map opt_id (drawn (fst (handle sample_env ann_with_line
                             (from_bob ''feature:edit'' ''demo'' [(''feature'', line_f9)]))))
     = [Some (JStr ''f_1''), Some (JStr ''f_9'')]"
  by code_simp

text \<open>
  The theorem of C6 at Bob's labelled point \<open>f_3\<close> while Ann's store holds his line
  \<open>f_1\<close>, which the lookup does find: edited, the point is in the store behind the
  line; removed, nothing changes; and the same through Bob's messages.
\<close>

theorem unknown_identifier_edit_adds_remove_is_noop_witness:
  "map opt_id (drawn ann_with_line) = [Some (JStr ''f_1'')] \<and>
   findLayerById ann_with_line (JStr ''f_1'') = Some 0 \<and>
   findLayerById ann_with_line (JStr ''f_3'') = None \<and>
   editFeatureFromRemote sample_env ann_with_line point_f3
     = addFeatureFromRemote sample_env ann_with_line point_f3 \<and>
   snd (editFeatureFromRemote sample_env ann_with_line point_f3) = None \<and>
   findLayerById (fst (editFeatureFromRemote sample_env ann_with_line point_f3)) (JStr ''f_3'')
     = Some 1 \<and>
   snd (handle sample_env ann_with_line
          (from_bob ''feature:edit'' ''demo'' [(''feature'', point_f3)])) = None \<and>
   length (drawn (fst (handle sample_env ann_with_line
                         (from_bob ''feature:edit'' ''demo'' [(''feature'', point_f3)])))) = 2 \<and>
   removeFeatureById ann_with_line (JStr ''f_3'') = ann_with_line \<and>
   snd (handle sample_env ann_with_line
          (from_bob ''feature:remove'' ''demo'' [(''id'', JStr ''f_3'')])) = None \<and>
   drawn (fst (handle sample_env ann_with_line
                 (from_bob ''feature:remove'' ''demo'' [(''id'', JStr ''f_3'')])))
     = drawn ann_with_line"
proof -
  let ?p = "JObj [(''_id'', JStr ''f_3''), (''label'', JStr ''Here'')]"
  let ?edit = "from_bob ''feature:edit'' ''demo'' [(''feature'', point_f3)]"
  let ?remove = "from_bob ''feature:remove'' ''demo'' [(''id'', JStr ''f_3'')]"
  have props: "jprop point_f3 ''properties'' = Some ?p"
    by (simp add: point_f3_def)
  have ident: "jprop ?p ''_id'' = Some (JStr ''f_3'')" "''f_3'' \<noteq> []"
    by simp_all
  have ids: "map opt_id (drawn ann_with_line) = [Some (JStr ''f_1'')]"
    by code_simp
  have "\<forall>v\<in>set (map opt_id (drawn ann_with_line)). v \<noteq> Some (JStr ''f_3'')"
    unfolding ids by simp
  then have unknown: "\<forall>l\<in>set (drawn ann_with_line). opt_id l \<noteq> Some (JStr ''f_3'')"
    by simp
  have known: "findLayerById ann_with_line (JStr ''f_1'') = Some 0"
    by code_simp
  have len: "length (drawn ann_with_line) = 1" by (rule ann_with_line_drawn)
  have m1: "has_sender ?edit" "jprop ?edit ''type'' = Some (JStr ''feature:edit'')"
    "jprop ?edit ''feature'' = Some point_f3"
    by (simp_all add: has_sender_def from_bob_def bob_def guarded_prop_def)
  have m2: "has_sender ?remove" "jprop ?remove ''type'' = Some (JStr ''feature:remove'')"
    "jprop ?remove ''id'' = Some (JStr ''f_3'')"
    by (simp_all add: has_sender_def from_bob_def bob_def guarded_prop_def)
  have opens: "tooltipOpens sample_env Marker (JArr [JNum 1, JNum 2])"
    by code_simp
  note inst = unknown_identifier_edit_adds_remove_is_noop [OF props ident unknown, of sample_env
      Marker "JArr [JNum 1, JNum 2]" ?edit ?remove]
  from inst have a: "findLayerById ann_with_line (JStr ''f_3'') = None" by blast
  from inst have b: "editFeatureFromRemote sample_env ann_with_line point_f3
     = addFeatureFromRemote sample_env ann_with_line point_f3" by blast
  from inst point_accepted have c:
    "(\<exists>l. drawn (fst (editFeatureFromRemote sample_env ann_with_line point_f3))
            = drawn ann_with_line @ [l] \<and> opt_id l = Some (JStr ''f_3'')) \<and>
     findLayerById (fst (editFeatureFromRemote sample_env ann_with_line point_f3)) (JStr ''f_3'')
       = Some (length (drawn ann_with_line)) \<and>
     snd (editFeatureFromRemote sample_env ann_with_line point_f3) =
       (if \<not> truthy (jprop ?p ''label'') then None
        else if \<not> tooltipOpens sample_env Marker (JArr [JNum 1, JNum 2]) then Some LeafletError
        else if \<not> is_string (jprop ?p ''label'') then Some TypeError
        else None)"
    by blast
  then have c1: "snd (editFeatureFromRemote sample_env ann_with_line point_f3) = None"
    using opens by simp
  from c have c2: "length (drawn (fst (editFeatureFromRemote sample_env ann_with_line point_f3))) = 2"
    using len by auto
  from inst m1 have d:
    "drawn (fst (handle sample_env ann_with_line ?edit))
       = drawn (fst (addFeatureFromRemote sample_env ann_with_line point_f3)) \<and>
     snd (handle sample_env ann_with_line ?edit)
       = snd (addFeatureFromRemote sample_env ann_with_line point_f3)"
    by blast
  from inst have r: "removeFeatureById ann_with_line (JStr ''f_3'') = ann_with_line" by blast
  from inst m2 have f:
    "snd (handle sample_env ann_with_line ?remove) = None \<and>
     drawn (fst (handle sample_env ann_with_line ?remove)) = drawn ann_with_line"
    by blast
  show ?thesis using ids known a b c c1 c2 d r f len by simp
qed




































end
